theory Spec2Isabelle
  imports Complex_Main "HOL-Library.Word"
begin

section \<open>JavaScript values\<close>

text \<open>
  The signed-authorization core of the repository is written in JavaScript. The field
  values of a signature-data object arrive as JSON, so a value is one of the JSON
  primitives or \<open>undefined\<close> (what reading an absent property gives). Nested objects
  and arrays as field values are outside this model.

  A number is \<open>NaN\<close>, an infinity or a finite value. Finite values are rationals and
  their arithmetic is exact; this is the arithmetic of IEEE doubles on the integers of
  magnitude below \<open>2^53\<close>, which covers every millisecond timestamp.
\<close>

datatype jsnum = NaN | PosInf | NegInf | Fin rat

datatype jsval = JUndefined | JNull | JBool bool | JNum jsnum | JStr string

type_synonym jsobject = "string \<rightharpoonup> jsval"

type_synonym byte = "8 word"

text \<open>Property access \<open>obj.name\<close>: an absent property reads as \<open>undefined\<close>.\<close>

definition getProp :: "jsobject \<Rightarrow> string \<Rightarrow> jsval" where
  "getProp obj name = (case obj name of None \<Rightarrow> JUndefined | Some v \<Rightarrow> v)"

text \<open>The relational operators on numbers: every comparison with \<open>NaN\<close> is false.\<close>

fun js_lt :: "jsnum \<Rightarrow> jsnum \<Rightarrow> bool" where
  "js_lt NaN b = False"
| "js_lt a NaN = False"
| "js_lt (Fin a) (Fin b) = (a < b)"
| "js_lt a NegInf = False"
| "js_lt NegInf b = True"
| "js_lt PosInf b = False"
| "js_lt (Fin a) PosInf = True"

definition js_gt :: "jsnum \<Rightarrow> jsnum \<Rightarrow> bool" where
  "js_gt a b = js_lt b a"

definition js_le :: "jsnum \<Rightarrow> jsnum \<Rightarrow> bool" where
  "js_le a b = (a \<noteq> NaN \<and> b \<noteq> NaN \<and> \<not> js_lt b a)"

fun js_sub :: "jsnum \<Rightarrow> jsnum \<Rightarrow> jsnum" where
  "js_sub NaN b = NaN"
| "js_sub a NaN = NaN"
| "js_sub (Fin a) (Fin b) = Fin (a - b)"
| "js_sub PosInf PosInf = NaN"
| "js_sub NegInf NegInf = NaN"
| "js_sub PosInf b = PosInf"
| "js_sub NegInf b = NegInf"
| "js_sub (Fin a) PosInf = NegInf"
| "js_sub (Fin a) NegInf = PosInf"

definition isNaN :: "jsnum \<Rightarrow> bool" where
  "isNaN a = (a = NaN)"

text \<open>Truthiness, the operator \<open>||\<close>, and strict equality \<open>===\<close>.\<close>

fun truthy :: "jsval \<Rightarrow> bool" where
  "truthy JUndefined = False"
| "truthy JNull = False"
| "truthy (JBool b) = b"
| "truthy (JNum n) = (n \<noteq> NaN \<and> n \<noteq> Fin 0)"
| "truthy (JStr s) = (s \<noteq> [])"

definition js_or :: "jsval \<Rightarrow> jsval \<Rightarrow> jsval" where
  "js_or a b = (if truthy a then a else b)"

definition js_strict_eq :: "jsval \<Rightarrow> jsval \<Rightarrow> bool" where
  "js_strict_eq a b = (a = b \<and> a \<noteq> JNum NaN)"

definition isNonEmptyString :: "jsval \<Rightarrow> bool" where
  \<comment> \<open>the negation of \<open>!v || typeof v !== 'string'\<close>\<close>
  "isNonEmptyString v = (truthy v \<and> (case v of JStr s \<Rightarrow> True | _ \<Rightarrow> False))"

subsection \<open>The run-time library\<close>

text \<open>
  The language built-ins and the packages \<open>bs58\<close> and \<open>tweetnacl\<close> are not part of
  the repository. They are parameters of the model, so that every theorem below holds
  whatever they compute. \<open>bs58_decode\<close> returns the message of the error it throws on
  the left. \<open>utf8\<close> stands for both \<open>Buffer.from(message, 'utf8')\<close> and
  \<open>new TextEncoder().encode(message)\<close>, which are the same encoding.
\<close>

record jslib =
  numToString :: "jsnum \<Rightarrow> string"
  parseInt :: "string \<Rightarrow> jsnum"
  parseFloat :: "string \<Rightarrow> jsnum"
  utf8 :: "string \<Rightarrow> byte list"
  bs58_decode :: "jsval \<Rightarrow> string + byte list"
  nacl_verify :: "byte list \<Rightarrow> byte list \<Rightarrow> byte list \<Rightarrow> bool"

text \<open>String conversion, as a template literal \<open>`${v}`\<close> performs it.\<close>

fun toStr :: "jslib \<Rightarrow> jsval \<Rightarrow> string" where
  "toStr lib JUndefined = ''undefined''"
| "toStr lib JNull = ''null''"
| "toStr lib (JBool b) = (if b then ''true'' else ''false'')"
| "toStr lib (JNum n) = numToString lib n"
| "toStr lib (JStr s) = s"

text \<open>\<open>parseInt(v)\<close> and \<open>parseFloat(v)\<close> convert their argument to a string first.\<close>

definition js_parseInt :: "jslib \<Rightarrow> jsval \<Rightarrow> jsnum" where
  "js_parseInt lib v = parseInt lib (toStr lib v)"

definition js_parseFloat :: "jslib \<Rightarrow> jsval \<Rightarrow> jsnum" where
  "js_parseFloat lib v = parseFloat lib (toStr lib v)"

text \<open>\<open>Array.prototype.join\<close> on an array of strings.\<close>

fun js_join :: "string \<Rightarrow> string list \<Rightarrow> string" where
  "js_join sep [] = []"
| "js_join sep [x] = x"
| "js_join sep (x # y # ys) = x @ sep @ js_join sep (y # ys)"

section \<open>The canonical encoder\<close>

text \<open>
  Both encoders join their entries with the string literal \<open>'\\n'\<close>, which in
  JavaScript source is the two characters backslash and \<open>n\<close>.
\<close>

definition delimiter :: string where
  "delimiter = [CHR 0x5C, CHR ''n'']"

text \<open>\<open>SecurityUtils.createMessageToSign\<close> (frontend, signer side).\<close>

definition SecurityUtils_entries :: "jslib \<Rightarrow> jsobject \<Rightarrow> string list" where
  "SecurityUtils_entries lib signatureData =
    [ ''nonce:'' @ toStr lib (getProp signatureData ''nonce''),
      ''timestamp:'' @ toStr lib (getProp signatureData ''timestamp''),
      ''expiry:'' @ toStr lib (getProp signatureData ''expiry''),
      ''domain:'' @ toStr lib (getProp signatureData ''domain''),
      ''version:'' @ toStr lib (getProp signatureData ''version''),
      ''source:'' @ toStr lib (getProp signatureData ''source''),
      ''destination:'' @ toStr lib (getProp signatureData ''destination''),
      ''amount:'' @ toStr lib (getProp signatureData ''amount''),
      ''token:'' @ toStr lib (getProp signatureData ''token''),
      ''memo:'' @ toStr lib (getProp signatureData ''memo''),
      ''maxSlippage:'' @ toStr lib (getProp signatureData ''maxSlippage'') ]"

definition SecurityUtils_createMessageToSign :: "jslib \<Rightarrow> jsobject \<Rightarrow> byte list" where
  "SecurityUtils_createMessageToSign lib signatureData =
     utf8 lib (js_join delimiter (SecurityUtils_entries lib signatureData))"

text \<open>\<open>SignatureService.createMessageToSign\<close> (backend, verifier side).\<close>

definition entries :: "jslib \<Rightarrow> jsobject \<Rightarrow> string list" where
  "entries lib signatureData =
    [ ''nonce:'' @ toStr lib (getProp signatureData ''nonce''),
      ''timestamp:'' @ toStr lib (getProp signatureData ''timestamp''),
      ''expiry:'' @ toStr lib (getProp signatureData ''expiry''),
      ''domain:'' @ toStr lib (getProp signatureData ''domain''),
      ''version:'' @ toStr lib (js_or (getProp signatureData ''version'') (JStr ''1.0'')),
      ''source:'' @ toStr lib (getProp signatureData ''source''),
      ''destination:'' @ toStr lib (getProp signatureData ''destination''),
      ''amount:'' @ toStr lib (getProp signatureData ''amount''),
      ''token:'' @ toStr lib (js_or (getProp signatureData ''token'') (JStr ''SOL'')),
      ''memo:'' @ toStr lib (js_or (getProp signatureData ''memo'') (JStr '''')),
      ''maxSlippage:'' @
        toStr lib (js_or (getProp signatureData ''maxSlippage'') (JNum (Fin (1 / 100)))) ]"

definition createMessageToSign :: "jslib \<Rightarrow> jsobject \<Rightarrow> byte list" where
  "createMessageToSign lib signatureData =
     utf8 lib (js_join delimiter (entries lib signatureData))"

text \<open>
  \<open>SecurityUtils.createSignatureData\<close>: how the signer builds the record it encodes.
  The clock reading, the page's host and the freshly generated nonce come from the
  environment.
\<close>

record signer_env =
  signer_now :: int
  host :: string
  generatedNonce :: string

definition createSignatureData :: "signer_env \<Rightarrow> jsobject \<Rightarrow> jsobject" where
  "createSignatureData e transferData =
    (let now = signer_now e;
         expiry = now + 15 * 60 * 1000
     in [ ''nonce'' \<mapsto> JStr (generatedNonce e),
          ''timestamp'' \<mapsto> JNum (Fin (of_int now)),
          ''expiry'' \<mapsto> JNum (Fin (of_int expiry)),
          ''domain'' \<mapsto> JStr (host e),
          ''version'' \<mapsto> JStr ''1.0'',
          ''source'' \<mapsto> getProp transferData ''source'',
          ''destination'' \<mapsto> getProp transferData ''destination'',
          ''amount'' \<mapsto> getProp transferData ''amount'',
          ''token'' \<mapsto> js_or (getProp transferData ''token'') (JStr ''SOL''),
          ''memo'' \<mapsto> js_or (getProp transferData ''memo'') (JStr ''''),
          ''maxSlippage'' \<mapsto>
             js_or (getProp transferData ''maxSlippage'') (JNum (Fin (1 / 100))) ])"

section \<open>The signature service\<close>

text \<open>
  The state of a \<open>SignatureService\<close>: the allow-list of domains, the Redis client
  (\<open>None\<close> when \<open>this.redis\<close> is \<open>null\<close>) and the in-memory fallback cache, a
  \<open>Map\<close> from nonce to the instant it was consumed.

  Redis is an external store. Its database maps a key to a value and the instant, in
  milliseconds, at which the key expires: \<open>GET\<close> answers \<open>null\<close> for a missing or
  expired key, \<open>EXISTS\<close> answers 0 or 1, \<open>SETEX\<close> writes the value with a time
  to live in seconds. A command that fails rejects its promise and leaves the database
  as it was.

  The handler that \<open>initializeRedis\<close> installs for the client's \<open>error\<close> event
  sets \<open>this.redis\<close> to \<open>null\<close>, so between two calls the environment can turn
  \<open>Some db\<close> into \<open>None\<close>; from then on the lookups go to the fallback cache,
  which holds none of the nonces consumed through Redis. The theorems below that speak
  of two calls say on which store the second one runs.
\<close>

type_synonym 'v redis_db = "string \<rightharpoonup> ('v \<times> int)"

definition redis_get :: "int \<Rightarrow> 'v redis_db \<Rightarrow> string \<Rightarrow> 'v option" where
  "redis_get now db key =
     (case db key of
        None \<Rightarrow> None
      | Some (v, expiresAt) \<Rightarrow> if now < expiresAt then Some v else None)"

definition redis_exists :: "int \<Rightarrow> 'v redis_db \<Rightarrow> string \<Rightarrow> int" where
  "redis_exists now db key = (if redis_get now db key = None then 0 else 1)"

definition redis_setEx :: "int \<Rightarrow> 'v redis_db \<Rightarrow> string \<Rightarrow> int \<Rightarrow> 'v \<Rightarrow> 'v redis_db" where
  "redis_setEx now db key seconds v = db(key \<mapsto> (v, now + seconds * 1000))"

record service =
  SUPPORTED_DOMAINS :: "string list"
  redis :: "string redis_db option"
  nonceCache :: "jsval \<rightharpoonup> int"

definition MAX_AMOUNT_SOL :: rat where
  "MAX_AMOUNT_SOL = 100"

text \<open>
  What one call reads from outside: \<open>Date.now()\<close>, taken to be the same instant
  throughout the call, and whether the Redis commands it issues fail: the read
  (\<open>GET\<close>, \<open>EXISTS\<close>) and the write (\<open>SETEX\<close>).
\<close>

record env =
  now :: int
  readFails :: bool
  writeFails :: bool

text \<open>
  A check returns \<open>None\<close> for \<open>{ valid: true }\<close> and \<open>Some error\<close> for
  \<open>{ valid: false, error }\<close>. The verdict of \<open>verifySignature\<close> carries the data on
  success (\<open>verifiedAt\<close> is left out) and the error text on failure.
\<close>

datatype verdict = Valid jsobject | Invalid string

subsection \<open>Step 1: input parameters\<close>

definition requiredFields :: "string list" where
  "requiredFields =
     [''nonce'', ''timestamp'', ''expiry'', ''domain'', ''source'', ''destination'', ''amount'']"

fun missingField :: "string list \<Rightarrow> jsobject \<Rightarrow> string option" where
  "missingField [] signatureData = None"
| "missingField (f # fs) signatureData =
     (if signatureData f = None then Some (''Missing required field: '' @ f)
      else missingField fs signatureData)"

text \<open>
  The first argument is \<open>None\<close> when the caller passed something falsy or not an
  object.
\<close>

definition validateInputs :: "jsobject option \<Rightarrow> jsval \<Rightarrow> jsval \<Rightarrow> string option" where
  "validateInputs signatureData signature publicKey =
     (case signatureData of
        None \<Rightarrow> Some ''Invalid signature data format''
      | Some sd \<Rightarrow>
          if \<not> isNonEmptyString signature then Some ''Invalid signature format''
          else if \<not> isNonEmptyString publicKey then Some ''Invalid public key format''
          else missingField requiredFields sd)"

subsection \<open>Step 2: timestamp and expiry\<close>

definition maxClockSkew :: int where
  "maxClockSkew = 5 * 60 * 1000"

definition maxValidityWindow :: int where
  "maxValidityWindow = 24 * 60 * 60 * 1000"

definition validateTimestamp :: "jslib \<Rightarrow> env \<Rightarrow> jsobject \<Rightarrow> string option" where
  "validateTimestamp lib e signatureData =
     (let timestamp = js_parseInt lib (getProp signatureData ''timestamp'');
          expiry = js_parseInt lib (getProp signatureData ''expiry'')
      in if js_gt timestamp (Fin (of_int (now e + maxClockSkew)))
         then Some ''Signature timestamp is too far in the future''
         else if js_gt (Fin (of_int (now e))) expiry
         then Some ''Signature has expired''
         else if js_gt (js_sub expiry timestamp) (Fin (of_int maxValidityWindow))
         then Some ''Signature validity window is too long''
         else None)"

subsection \<open>Step 3: the nonce\<close>

definition isBase64UrlChar :: "char \<Rightarrow> bool" where
  "isBase64UrlChar c =
     (let n = (of_char c :: nat)
      in (65 \<le> n \<and> n \<le> 90) \<or> (97 \<le> n \<and> n \<le> 122) \<or> (48 \<le> n \<and> n \<le> 57)
         \<or> c = CHR ''_'' \<or> c = CHR ''-'')"

definition matchesBase64Url :: "string \<Rightarrow> bool" where
  \<comment> \<open>\<open>/^[A-Za-z0-9_-]+$/.test(s)\<close>\<close>
  "matchesBase64Url s = (s \<noteq> [] \<and> list_all isBase64UrlChar s)"

definition nonceKey :: "jslib \<Rightarrow> jsval \<Rightarrow> string" where
  "nonceKey lib nonce = ''nonce:'' @ toStr lib nonce"

text \<open>
  \<open>isNonceUsed\<close> catches the error of a failed \<open>GET\<close> and answers \<open>false\<close>.
\<close>

definition isNonceUsed :: "jslib \<Rightarrow> env \<Rightarrow> service \<Rightarrow> jsval \<Rightarrow> bool" where
  "isNonceUsed lib e s nonce =
     (case redis s of
        Some db \<Rightarrow>
          if readFails e then False
          else redis_get (now e) db (nonceKey lib nonce) \<noteq> None
      | None \<Rightarrow> nonceCache s nonce \<noteq> None)"

definition validateNonce :: "jslib \<Rightarrow> env \<Rightarrow> service \<Rightarrow> jsval \<Rightarrow> string option" where
  "validateNonce lib e s nonce =
     (if \<not> isNonEmptyString nonce then Some ''Invalid nonce format''
      else if \<not> matchesBase64Url (toStr lib nonce) then Some ''Invalid nonce format''
      else if isNonceUsed lib e s nonce
      then Some ''Nonce has already been used (replay attack detected)''
      else None)"

definition cleanupNonceCache :: "env \<Rightarrow> service \<Rightarrow> service" where
  "cleanupNonceCache e s =
     (let maxAge = 24 * 60 * 60 * 1000
      in s\<lparr>nonceCache :=
             (\<lambda>nonce. case nonceCache s nonce of
                         None \<Rightarrow> None
                       | Some timestamp \<Rightarrow>
                           if now e - timestamp > maxAge then None else Some timestamp)\<rparr>)"

text \<open>
  \<open>consumeNonce\<close> returns the new state, or on the left the message of the error it
  throws when the write fails.
\<close>

definition consumeNonce :: "jslib \<Rightarrow> env \<Rightarrow> service \<Rightarrow> jsval \<Rightarrow> string + service" where
  "consumeNonce lib e s nonce =
     (case redis s of
        Some db \<Rightarrow>
          if writeFails e
          then Inl ''Failed to consume nonce - cannot prevent replay attacks''
          else Inr (s\<lparr>redis :=
                        Some (redis_setEx (now e) db (nonceKey lib nonce) (24 * 60 * 60) ''used'')\<rparr>)
      | None \<Rightarrow>
          Inr (cleanupNonceCache e (s\<lparr>nonceCache := (nonceCache s)(nonce \<mapsto> now e)\<rparr>)))"

subsection \<open>Step 4: the domain\<close>

definition validateDomain :: "jslib \<Rightarrow> service \<Rightarrow> jsval \<Rightarrow> string option" where
  "validateDomain lib s domain =
     (if \<not> isNonEmptyString domain then Some ''Invalid domain format''
      else if domain \<notin> set (map JStr (SUPPORTED_DOMAINS s))
      then Some (''Unsupported domain: '' @ toStr lib domain)
      else None)"

subsection \<open>Step 5: the cryptographic signature\<close>

definition verifyCryptographicSignature ::
  "jslib \<Rightarrow> jsobject \<Rightarrow> jsval \<Rightarrow> jsval \<Rightarrow> string option" where
  "verifyCryptographicSignature lib signatureData signature publicKey =
     (let messageBytes = createMessageToSign lib signatureData
      in case bs58_decode lib signature of
           Inl message \<Rightarrow> Some (''Signature verification error: '' @ message)
         | Inr signatureBytes \<Rightarrow>
            (case bs58_decode lib publicKey of
               Inl message \<Rightarrow> Some (''Signature verification error: '' @ message)
             | Inr publicKeyBytes \<Rightarrow>
                 if length signatureBytes \<noteq> 64 then Some ''Invalid signature length''
                 else if length publicKeyBytes \<noteq> 32 then Some ''Invalid public key length''
                 else if \<not> nacl_verify lib messageBytes signatureBytes publicKeyBytes
                 then Some ''Cryptographic signature verification failed''
                 else None))"

subsection \<open>Step 6: business rules\<close>

text \<open>
  Numbers are exact rationals here, and the literals \<open>100\<close>, \<open>0\<close> and \<open>0.1\<close>
  the rationals they denote. The code compares IEEE doubles: an amount or a slippage
  whose decimal value is not a double is compared after rounding to the nearest one, so
  a slippage just above one tenth that rounds to the double of \<open>0.1\<close> passes in the
  code and fails here. No theorem below rests on a value that close to a bound.
\<close>

definition isValidSolanaAddress :: "jslib \<Rightarrow> jsval \<Rightarrow> bool" where
  "isValidSolanaAddress lib address =
     (case bs58_decode lib address of
        Inl message \<Rightarrow> False
      | Inr decoded \<Rightarrow> length decoded = 32)"

definition performSecurityChecks :: "jslib \<Rightarrow> jsobject \<Rightarrow> string option" where
  "performSecurityChecks lib signatureData =
     (let amount = js_parseFloat lib (getProp signatureData ''amount'');
          slippage = js_parseFloat lib (getProp signatureData ''maxSlippage'')
      in if js_strict_eq (getProp signatureData ''token'') (JStr ''SOL'')
            \<and> js_gt amount (Fin MAX_AMOUNT_SOL)
         then Some ''Amount exceeds maximum limit of 100 SOL''
         else if \<not> isValidSolanaAddress lib (getProp signatureData ''source'')
                 \<or> \<not> isValidSolanaAddress lib (getProp signatureData ''destination'')
         then Some ''Invalid wallet address format''
         else if js_strict_eq (getProp signatureData ''source'')
                   (getProp signatureData ''destination'')
         then Some ''Cannot transfer to same wallet''
         else if isNaN amount \<or> js_le amount (Fin 0)
         then Some ''Invalid transfer amount''
         else if isNaN slippage \<or> js_lt slippage (Fin 0) \<or> js_gt slippage (Fin (1 / 10))
         then Some ''Invalid slippage value (must be between 0 and 10%)''
         else if truthy (getProp signatureData ''version'')
                 \<and> \<not> js_strict_eq (getProp signatureData ''version'') (JStr ''1.0'')
         then Some ''Unsupported signature version''
         else None)"

subsection \<open>\<open>verifySignature\<close>\<close>

text \<open>
  The steps in the order of the source. Only \<open>consumeNonce\<close> can throw; the
  \<open>catch\<close> of \<open>verifySignature\<close> turns its error into a verdict. Logging has no
  effect on the state. Past step 1 the signature data is an object, so the second
  case below never takes its first branch.
\<close>

definition verifySignature ::
  "jslib \<Rightarrow> env \<Rightarrow> service \<Rightarrow> jsobject option \<Rightarrow> jsval \<Rightarrow> jsval \<Rightarrow> verdict \<times> service" where
  "verifySignature lib e s signatureData signature publicKey =
     (case validateInputs signatureData signature publicKey of
        Some err \<Rightarrow> (Invalid err, s)
      | None \<Rightarrow>
     (case signatureData of
        None \<Rightarrow> (Invalid ''Invalid signature data format'', s)
      | Some sd \<Rightarrow>
     (case validateTimestamp lib e sd of
        Some err \<Rightarrow> (Invalid err, s)
      | None \<Rightarrow>
     (case validateNonce lib e s (getProp sd ''nonce'') of
        Some err \<Rightarrow> (Invalid err, s)
      | None \<Rightarrow>
     (case validateDomain lib s (getProp sd ''domain'') of
        Some err \<Rightarrow> (Invalid err, s)
      | None \<Rightarrow>
     (case verifyCryptographicSignature lib sd signature publicKey of
        Some err \<Rightarrow> (Invalid err, s)
      | None \<Rightarrow>
     (case performSecurityChecks lib sd of
        Some err \<Rightarrow> (Invalid err, s)
      | None \<Rightarrow>
     (case consumeNonce lib e s (getProp sd ''nonce'') of
        Inl message \<Rightarrow> (Invalid (''Signature verification failed: '' @ message), s)
      | Inr s' \<Rightarrow> (Valid sd, s')))))))))"

subsection \<open>Calls that overlap\<close>

text \<open>
  \<open>verifySignature\<close> is an \<open>async\<close> function on a single-threaded event loop. It
  runs without interruption up to \<open>await this.validateNonce(...)\<close>, where the lookup
  has been issued and the call is suspended, and again from its resumption to the
  write of \<open>consumeNonce\<close>; no other point of it reads or writes the nonce store.
  Another call can run between the two segments.

  \<open>verifySignature_lookup\<close> is the first segment (steps 1 to 3), and
  \<open>verifySignature_resume\<close> the second (steps 4 to 7), run on the store as it is at
  the resumption.
\<close>

definition verifySignature_lookup ::
  "jslib \<Rightarrow> env \<Rightarrow> service \<Rightarrow> jsobject option \<Rightarrow> jsval \<Rightarrow> jsval \<Rightarrow> string option" where
  "verifySignature_lookup lib e s signatureData signature publicKey =
     (case validateInputs signatureData signature publicKey of
        Some err \<Rightarrow> Some err
      | None \<Rightarrow>
     (case signatureData of
        None \<Rightarrow> Some ''Invalid signature data format''
      | Some sd \<Rightarrow>
     (case validateTimestamp lib e sd of
        Some err \<Rightarrow> Some err
      | None \<Rightarrow> validateNonce lib e s (getProp sd ''nonce''))))"

definition verifySignature_resume ::
  "jslib \<Rightarrow> env \<Rightarrow> service \<Rightarrow> jsobject option \<Rightarrow> jsval \<Rightarrow> jsval \<Rightarrow> verdict \<times> service" where
  "verifySignature_resume lib e s signatureData signature publicKey =
     (case signatureData of
        None \<Rightarrow> (Invalid ''Invalid signature data format'', s)
      | Some sd \<Rightarrow>
     (case validateDomain lib s (getProp sd ''domain'') of
        Some err \<Rightarrow> (Invalid err, s)
      | None \<Rightarrow>
     (case verifyCryptographicSignature lib sd signature publicKey of
        Some err \<Rightarrow> (Invalid err, s)
      | None \<Rightarrow>
     (case performSecurityChecks lib sd of
        Some err \<Rightarrow> (Invalid err, s)
      | None \<Rightarrow>
     (case consumeNonce lib e s (getProp sd ''nonce'') of
        Inl message \<Rightarrow> (Invalid (''Signature verification failed: '' @ message), s)
      | Inr s' \<Rightarrow> (Valid sd, s'))))))"

text \<open>
  A call in flight is \<open>Issued\<close> (not yet run), \<open>Awaiting\<close> (suspended at the
  \<open>await\<close>, holding what the lookup found) or \<open>Returned\<close>. \<open>advance\<close> runs the
  next segment of one call; \<open>run\<close> follows a schedule, the list of the indices of the
  calls that the event loop picks, one segment each.
\<close>

datatype call =
    Issued "jsobject option" jsval jsval
  | Awaiting "jsobject option" jsval jsval "string option"
  | Returned verdict

fun advance :: "jslib \<Rightarrow> env \<Rightarrow> service \<Rightarrow> call \<Rightarrow> call \<times> service" where
  "advance lib e s (Issued signatureData signature publicKey) =
     (Awaiting signatureData signature publicKey
        (verifySignature_lookup lib e s signatureData signature publicKey), s)"
| "advance lib e s (Awaiting signatureData signature publicKey (Some err)) =
     (Returned (Invalid err), s)"
| "advance lib e s (Awaiting signatureData signature publicKey None) =
     (case verifySignature_resume lib e s signatureData signature publicKey of
        (v, s') \<Rightarrow> (Returned v, s'))"
| "advance lib e s (Returned v) = (Returned v, s)"

fun run :: "jslib \<Rightarrow> env \<Rightarrow> nat list \<Rightarrow> service \<times> call list \<Rightarrow> service \<times> call list" where
  "run lib e [] (s, calls) = (s, calls)"
| "run lib e (i # schedule) (s, calls) =
     (if i < length calls
      then case advance lib e s (calls ! i) of
             (c, s') \<Rightarrow> run lib e schedule (s', calls[i := c])
      else run lib e schedule (s, calls))"

section \<open>The nonce manager\<close>

text \<open>
  The state of a \<open>NonceManager\<close>: its Redis client and its fallback cache. A stored
  entry holds the instant of use and the caller's metadata; the local cache adds the
  instant of expiry.
\<close>

record 'm nonceManager =
  nm_redis :: "(int \<times> 'm) redis_db option"
  localCache :: "jsval \<rightharpoonup> (int \<times> 'm \<times> int)"

definition NONCE_EXPIRY_HOURS :: int where
  "NONCE_EXPIRY_HOURS = 24"

definition isValidNonceFormat :: "jslib \<Rightarrow> jsval \<Rightarrow> bool" where
  "isValidNonceFormat lib nonce =
     (if \<not> isNonEmptyString nonce then False
      else if \<not> matchesBase64Url (toStr lib nonce) then False
      else if length (toStr lib nonce) \<noteq> 43 then False
      else True)"

text \<open>
  \<open>NonceManager.exists\<close> catches every error, its own \<open>Invalid nonce format\<close>
  included, and answers \<open>false\<close>.
\<close>

definition nm_exists :: "jslib \<Rightarrow> env \<Rightarrow> 'm nonceManager \<Rightarrow> jsval \<Rightarrow> bool" where
  "nm_exists lib e m nonce =
     (if \<not> isValidNonceFormat lib nonce then False
      else case nm_redis m of
             Some db \<Rightarrow>
               if readFails e then False
               else redis_exists (now e) db (nonceKey lib nonce) = 1
           | None \<Rightarrow> localCache m nonce \<noteq> None)"

text \<open>
  \<open>NonceManager.store\<close> returns the new state, or on the left the message of the
  error it throws.
\<close>

definition nm_store ::
  "jslib \<Rightarrow> env \<Rightarrow> 'm nonceManager \<Rightarrow> jsval \<Rightarrow> 'm \<Rightarrow> string + 'm nonceManager" where
  "nm_store lib e m nonce metadata =
     (if \<not> isValidNonceFormat lib nonce
      then Inl ''Failed to store nonce - cannot prevent replay attacks''
      else case nm_redis m of
             Some db \<Rightarrow>
               if writeFails e
               then Inl ''Failed to store nonce - cannot prevent replay attacks''
               else Inr (m\<lparr>nm_redis :=
                             Some (redis_setEx (now e) db (nonceKey lib nonce)
                                     (NONCE_EXPIRY_HOURS * 60 * 60) (now e, metadata))\<rparr>)
           | None \<Rightarrow>
               Inr (m\<lparr>localCache :=
                         (localCache m)(nonce \<mapsto>
                            (now e, metadata, now e + NONCE_EXPIRY_HOURS * 60 * 60 * 1000))\<rparr>))"

text \<open>
  \<open>NonceManager.validateAndConsume\<close>: \<open>None\<close> is \<open>{ success: true }\<close>, \<open>Some error\<close>
  is \<open>{ success: false, error }\<close>.
\<close>

definition validateAndConsume ::
  "jslib \<Rightarrow> env \<Rightarrow> 'm nonceManager \<Rightarrow> jsval \<Rightarrow> 'm \<Rightarrow> string option \<times> 'm nonceManager" where
  "validateAndConsume lib e m nonce metadata =
     (if \<not> isValidNonceFormat lib nonce then (Some ''Invalid nonce format'', m)
      else if nm_exists lib e m nonce
      then (Some ''Nonce has already been used (replay attack detected)'', m)
      else case nm_store lib e m nonce metadata of
             Inl message \<Rightarrow> (Some (''Nonce validation failed: '' @ message), m)
           | Inr m' \<Rightarrow> (None, m'))"

text \<open>
  \<open>validateAndConsume\<close> too is suspended between its lookup
  (\<open>await this.exists(nonce)\<close>) and its write (\<open>await this.store(...)\<close>). Its two
  segments:
\<close>

definition validateAndConsume_lookup ::
  "jslib \<Rightarrow> env \<Rightarrow> 'm nonceManager \<Rightarrow> jsval \<Rightarrow> string option" where
  "validateAndConsume_lookup lib e m nonce =
     (if \<not> isValidNonceFormat lib nonce then Some ''Invalid nonce format''
      else if nm_exists lib e m nonce
      then Some ''Nonce has already been used (replay attack detected)''
      else None)"

definition validateAndConsume_resume ::
  "jslib \<Rightarrow> env \<Rightarrow> 'm nonceManager \<Rightarrow> jsval \<Rightarrow> 'm \<Rightarrow> string option \<times> 'm nonceManager" where
  "validateAndConsume_resume lib e m nonce metadata =
     (case nm_store lib e m nonce metadata of
        Inl message \<Rightarrow> (Some (''Nonce validation failed: '' @ message), m)
      | Inr m' \<Rightarrow> (None, m'))"

section \<open>The order of the fields and of the checks\<close>

text \<open>
  The field order of the canonical message as the specification lists it, and the
  default the verifier's encoder substitutes for a falsy optional field.
\<close>

definition fieldOrder :: "string list" where
  "fieldOrder =
     [''nonce'', ''timestamp'', ''expiry'', ''domain'', ''version'', ''source'',
      ''destination'', ''amount'', ''token'', ''memo'', ''maxSlippage'']"

definition fieldDefault :: "string \<Rightarrow> jsval option" where
  "fieldDefault name =
     (if name = ''version'' then Some (JStr ''1.0'')
      else if name = ''token'' then Some (JStr ''SOL'')
      else if name = ''memo'' then Some (JStr '''')
      else if name = ''maxSlippage'' then Some (JNum (Fin (1 / 100)))
      else None)"

definition encodedValue :: "jsobject \<Rightarrow> string \<Rightarrow> jsval" where
  "encodedValue signatureData name =
     (case fieldDefault name of
        None \<Rightarrow> getProp signatureData name
      | Some d \<Rightarrow> js_or (getProp signatureData name) d)"

text \<open>The verdict of a list of checks run in order: the first failure, if any.\<close>

fun firstFailure :: "string option list \<Rightarrow> string option" where
  "firstFailure [] = None"
| "firstFailure (None # checks) = firstFailure checks"
| "firstFailure (Some err # checks) = Some err"

definition isValid :: "verdict \<Rightarrow> bool" where
  "isValid v = (case v of Valid d \<Rightarrow> True | Invalid err \<Rightarrow> False)"

definition replayError :: string where
  "replayError = ''Nonce has already been used (replay attack detected)''"

section \<open>A library for the examples\<close>

text \<open>
  The examples below need a concrete library. This one follows JavaScript on the
  inputs the examples use: \<open>parseInt\<close> on a string of decimal digits,
  \<open>parseFloat\<close> on digits with an optional fraction, \<open>Number.prototype.toString\<close>
  on integers and short decimal fractions, base58 decoding with the Bitcoin alphabet,
  and UTF-8 on ASCII text. Its \<open>nacl_verify\<close> accepts: the examples stand for runs in
  which the signature presented is the signer's.
\<close>

definition digitVal :: "char \<Rightarrow> int option" where
  "digitVal c =
     (let n = (of_char c :: int) in if 48 \<le> n \<and> n \<le> 57 then Some (n - 48) else None)"

fun parseDigits :: "string \<Rightarrow> int \<Rightarrow> int option" where
  "parseDigits [] acc = Some acc"
| "parseDigits (c # cs) acc =
     (case digitVal c of None \<Rightarrow> None | Some d \<Rightarrow> parseDigits cs (10 * acc + d))"

definition example_parseInt :: "string \<Rightarrow> jsnum" where
  "example_parseInt s =
     (if s = [] then NaN
      else case parseDigits s 0 of None \<Rightarrow> NaN | Some n \<Rightarrow> Fin (of_int n))"

definition example_parseFloat :: "string \<Rightarrow> jsnum" where
  "example_parseFloat s =
     (let ip = takeWhile (\<lambda>c. c \<noteq> CHR ''.'') s;
          rest = dropWhile (\<lambda>c. c \<noteq> CHR ''.'') s
      in if rest = [] then example_parseInt ip
         else if ip = [] \<or> tl rest = [] then NaN
         else case (parseDigits ip 0, parseDigits (tl rest) 0) of
                (Some a, Some b) \<Rightarrow> Fin (of_int a + of_int b / 10 ^ length (tl rest))
              | _ \<Rightarrow> NaN)"

function showDigits :: "int \<Rightarrow> string" where
  "showDigits n =
     (if n < 10 then [char_of (48 + n)]
      else showDigits (n div 10) @ [char_of (48 + n mod 10)])"
  by pat_completeness auto
termination
  by (relation "measure nat") auto

fun fracDigits :: "nat \<Rightarrow> rat \<Rightarrow> string" where
  "fracDigits 0 r = []"
| "fracDigits (Suc k) r =
     (if r = 0 then []
      else char_of (48 + \<lfloor>r * 10\<rfloor>) # fracDigits k (r * 10 - of_int \<lfloor>r * 10\<rfloor>))"

definition example_numToString :: "jsnum \<Rightarrow> string" where
  "example_numToString n =
     (case n of
        NaN \<Rightarrow> ''NaN''
      | PosInf \<Rightarrow> ''Infinity''
      | NegInf \<Rightarrow> ''-Infinity''
      | Fin q \<Rightarrow>
          (if q < 0 then ''-'' else '''') @ showDigits \<lfloor>\<bar>q\<bar>\<rfloor>
          @ (if \<bar>q\<bar> = of_int \<lfloor>\<bar>q\<bar>\<rfloor> then ''''
             else ''.'' @ fracDigits 20 (\<bar>q\<bar> - of_int \<lfloor>\<bar>q\<bar>\<rfloor>)))"

definition base58Alphabet :: string where
  "base58Alphabet = ''123456789ABCDEFGHJKLMNPQRSTUVWXYZabcdefghijkmnopqrstuvwxyz''"

fun indexOf :: "char \<Rightarrow> string \<Rightarrow> int option" where
  "indexOf c [] = None"
| "indexOf c (x # xs) = (if c = x then Some 0 else map_option (\<lambda>i. i + 1) (indexOf c xs))"

fun base58Value :: "string \<Rightarrow> int \<Rightarrow> int option" where
  "base58Value [] acc = Some acc"
| "base58Value (c # cs) acc =
     (case indexOf c base58Alphabet of
        None \<Rightarrow> None
      | Some d \<Rightarrow> base58Value cs (58 * acc + d))"

function bytesOf :: "int \<Rightarrow> byte list" where
  "bytesOf n = (if n \<le> 0 then [] else bytesOf (n div 256) @ [of_int (n mod 256)])"
  by pat_completeness auto
termination
  by (relation "measure nat") auto

definition example_bs58_decode :: "jsval \<Rightarrow> string + byte list" where
  "example_bs58_decode v =
     (case v of
        JStr s \<Rightarrow>
          (case base58Value s 0 of
             None \<Rightarrow> Inl ''Non-base58 character''
           | Some n \<Rightarrow>
               Inr (map (\<lambda>c. 0) (takeWhile (\<lambda>c. c = CHR ''1'') s) @ bytesOf n))
      | _ \<Rightarrow> Inl ''Expected String'')"

definition exampleLib :: jslib where
  "exampleLib =
     \<lparr> numToString = example_numToString,
       parseInt = example_parseInt,
       parseFloat = example_parseFloat,
       utf8 = map of_char,
       bs58_decode = example_bs58_decode,
       nacl_verify = (\<lambda>message signature publicKey. True) \<rparr>"

text \<open>
  A record as the signer builds it, valid from \<open>1700000000000\<close> for fifteen minutes,
  with a signature and a public key of the right lengths, and a service that runs on
  its in-memory cache.
\<close>

definition exampleData :: jsobject where
  "exampleData =
     [ ''nonce'' \<mapsto> JStr ''AAAAAAAAAAAAAAAAAAAAAAAAAAAAAAAAAAAAAAAAAAA'',
       ''timestamp'' \<mapsto> JNum (Fin 1700000000000),
       ''expiry'' \<mapsto> JNum (Fin 1700000900000),
       ''domain'' \<mapsto> JStr ''localhost:3000'',
       ''version'' \<mapsto> JStr ''1.0'',
       ''source'' \<mapsto> JStr ''11111111111111111111111111111111'',
       ''destination'' \<mapsto> JStr ''11111111111111111111111111111112'',
       ''amount'' \<mapsto> JStr ''1.5'',
       ''token'' \<mapsto> JStr ''SOL'',
       ''memo'' \<mapsto> JStr ''Test transfer'',
       ''maxSlippage'' \<mapsto> JStr ''0.01'' ]"


definition exampleSignature :: jsval where
  "exampleSignature = JStr (replicate 64 (CHR ''1''))"

definition examplePublicKey :: jsval where
  "examplePublicKey = JStr ''11111111111111111111111111111111''"

definition exampleService :: service where
  "exampleService =
     \<lparr> SUPPORTED_DOMAINS = [''localhost:3000''], redis = None, nonceCache = Map.empty \<rparr>"

definition atTime :: "int \<Rightarrow> env" where
  "atTime t = \<lparr> now = t, readFails = False, writeFails = False \<rparr>"

section \<open>The canonical encoder: field order, determinism, defaults\<close>

lemma entries_fieldOrder:
  "entries lib sd = map (\<lambda>name. name @ '':'' @ toStr lib (encodedValue sd name)) fieldOrder"
  by (simp add: entries_def fieldOrder_def encodedValue_def fieldDefault_def)

lemma SecurityUtils_entries_fieldOrder:
  "SecurityUtils_entries lib sd = map (\<lambda>name. name @ '':'' @ toStr lib (getProp sd name)) fieldOrder"
  by (simp add: SecurityUtils_entries_def fieldOrder_def)

text \<open>
  Claim C9. Both encoders emit exactly the eleven entries \<open>name:value\<close> of
  \<open>fieldOrder\<close>, in that order, joined by the constant \<open>delimiter\<close> (the verifier's
  encoder with its defaults substituted). They are functions of those eleven fields
  only: two records that agree on them field for field have the same encoding.
\<close>

theorem canonical_field_order:
  assumes "\<forall>name \<in> set fieldOrder. getProp sd name = getProp sd' name"
  shows "createMessageToSign lib sd =
           utf8 lib (js_join delimiter
             (map (\<lambda>name. name @ '':'' @ toStr lib (encodedValue sd name)) fieldOrder))
       \<and> SecurityUtils_createMessageToSign lib sd =
           utf8 lib (js_join delimiter
             (map (\<lambda>name. name @ '':'' @ toStr lib (getProp sd name)) fieldOrder))
       \<and> length fieldOrder = 11 \<and> distinct fieldOrder
       \<and> createMessageToSign lib sd = createMessageToSign lib sd'
       \<and> SecurityUtils_createMessageToSign lib sd = SecurityUtils_createMessageToSign lib sd'"
proof -
  have same: "map (\<lambda>name. name @ '':'' @ toStr lib (encodedValue sd name)) fieldOrder
            = map (\<lambda>name. name @ '':'' @ toStr lib (encodedValue sd' name)) fieldOrder"
    using assms by (auto simp: encodedValue_def split: option.splits)
  have same': "map (\<lambda>name. name @ '':'' @ toStr lib (getProp sd name)) fieldOrder
            = map (\<lambda>name. name @ '':'' @ toStr lib (getProp sd' name)) fieldOrder"
    using assms by simp
  have len: "length fieldOrder = 11 \<and> distinct fieldOrder"
    by (simp add: fieldOrder_def)
  have c1: "createMessageToSign lib sd = createMessageToSign lib sd'"
    by (simp only: createMessageToSign_def entries_fieldOrder same)
  have c2: "SecurityUtils_createMessageToSign lib sd = SecurityUtils_createMessageToSign lib sd'"
    by (simp only: SecurityUtils_createMessageToSign_def SecurityUtils_entries_fieldOrder same')
  have c3: "createMessageToSign lib sd =
           utf8 lib (js_join delimiter
             (map (\<lambda>name. name @ '':'' @ toStr lib (encodedValue sd name)) fieldOrder))"
    by (simp only: createMessageToSign_def entries_fieldOrder)
  have c4: "SecurityUtils_createMessageToSign lib sd =
           utf8 lib (js_join delimiter
             (map (\<lambda>name. name @ '':'' @ toStr lib (getProp sd name)) fieldOrder))"
    by (simp only: SecurityUtils_createMessageToSign_def SecurityUtils_entries_fieldOrder)
  show ?thesis
    using c1 c2 c3 c4 len by blast
qed

text \<open>
  The example record and the same record with a twelfth property agree on the eleven
  fields; the encoding is the one written out below.
\<close>

theorem canonical_field_order_witness:
  "createMessageToSign exampleLib exampleData =
     createMessageToSign exampleLib (exampleData(''note'' \<mapsto> JStr ''extra''))
   \<and> createMessageToSign exampleLib exampleData =
     map of_char
       (''nonce:AAAAAAAAAAAAAAAAAAAAAAAAAAAAAAAAAAAAAAAAAAA'' @ delimiter @
        ''timestamp:1700000000000'' @ delimiter @
        ''expiry:1700000900000'' @ delimiter @
        ''domain:localhost:3000'' @ delimiter @
        ''version:1.0'' @ delimiter @
        ''source:11111111111111111111111111111111'' @ delimiter @
        ''destination:11111111111111111111111111111112'' @ delimiter @
        ''amount:1.5'' @ delimiter @
        ''token:SOL'' @ delimiter @
        ''memo:Test transfer'' @ delimiter @
        ''maxSlippage:0.01'')"
proof -
  have h: "\<forall>name \<in> set fieldOrder.
             getProp exampleData name = getProp (exampleData(''note'' \<mapsto> JStr ''extra'')) name"
    by (simp add: fieldOrder_def getProp_def)
  have n1: "example_numToString (Fin 1700000000000) = ''1700000000000''" by code_simp
  have n2: "example_numToString (Fin 1700000900000) = ''1700000900000''" by code_simp
  have v: "map (\<lambda>name. name @ '':'' @ toStr exampleLib (encodedValue exampleData name)) fieldOrder
           = [''nonce:AAAAAAAAAAAAAAAAAAAAAAAAAAAAAAAAAAAAAAAAAAA'',
        ''timestamp:1700000000000'',
        ''expiry:1700000900000'',
        ''domain:localhost:3000'',
        ''version:1.0'',
        ''source:11111111111111111111111111111111'',
        ''destination:11111111111111111111111111111112'',
        ''amount:1.5'',
        ''token:SOL'',
        ''memo:Test transfer'',
        ''maxSlippage:0.01'']"
    by (simp add: fieldOrder_def encodedValue_def fieldDefault_def exampleData_def getProp_def
        js_or_def exampleLib_def n1 n2)
  have u: "utf8 exampleLib = map of_char"
    by (simp add: exampleLib_def)
  have j: "js_join delimiter
       [''nonce:AAAAAAAAAAAAAAAAAAAAAAAAAAAAAAAAAAAAAAAAAAA'',
        ''timestamp:1700000000000'',
        ''expiry:1700000900000'',
        ''domain:localhost:3000'',
        ''version:1.0'',
        ''source:11111111111111111111111111111111'',
        ''destination:11111111111111111111111111111112'',
        ''amount:1.5'',
        ''token:SOL'',
        ''memo:Test transfer'',
        ''maxSlippage:0.01''] =
       ''nonce:AAAAAAAAAAAAAAAAAAAAAAAAAAAAAAAAAAAAAAAAAAA'' @ delimiter @
        ''timestamp:1700000000000'' @ delimiter @
        ''expiry:1700000900000'' @ delimiter @
        ''domain:localhost:3000'' @ delimiter @
        ''version:1.0'' @ delimiter @
        ''source:11111111111111111111111111111111'' @ delimiter @
        ''destination:11111111111111111111111111111112'' @ delimiter @
        ''amount:1.5'' @ delimiter @
        ''token:SOL'' @ delimiter @
        ''memo:Test transfer'' @ delimiter @
        ''maxSlippage:0.01''"
    by (simp only: js_join.simps)
  from canonical_field_order [OF h, of exampleLib]
  have "createMessageToSign exampleLib exampleData =
          createMessageToSign exampleLib (exampleData(''note'' \<mapsto> JStr ''extra''))"
    and "createMessageToSign exampleLib exampleData =
           utf8 exampleLib (js_join delimiter
             (map (\<lambda>name. name @ '':'' @ toStr exampleLib (encodedValue exampleData name))
                fieldOrder))"
    by blast+
  then show ?thesis
    by (simp only: v u j)
qed

text \<open>
  Claim C10. The verifier's encoder is not injective on legal records. Whatever the
  other fields are, the record with \<open>maxSlippage = 0\<close> and the record with
  \<open>maxSlippage = 0.01\<close> differ and have the same encoding, and so do the record with
  \<open>memo = ""\<close> and the record with no memo: the falsy value is replaced by the
  default when the message is built. The cryptographic check therefore gives the same
  answer for both records of each pair, for every signature and public key.
\<close>

theorem encoder_not_injective:
  "sd(''maxSlippage'' \<mapsto> JNum (Fin 0)) \<noteq> sd(''maxSlippage'' \<mapsto> JNum (Fin (1 / 100)))
   \<and> createMessageToSign lib (sd(''maxSlippage'' \<mapsto> JNum (Fin 0)))
       = createMessageToSign lib (sd(''maxSlippage'' \<mapsto> JNum (Fin (1 / 100))))
   \<and> verifyCryptographicSignature lib (sd(''maxSlippage'' \<mapsto> JNum (Fin 0))) signature publicKey
       = verifyCryptographicSignature lib (sd(''maxSlippage'' \<mapsto> JNum (Fin (1 / 100)))) signature publicKey
   \<and> sd(''memo'' \<mapsto> JStr '''') \<noteq> sd(''memo'' := None)
   \<and> createMessageToSign lib (sd(''memo'' \<mapsto> JStr ''''))
       = createMessageToSign lib (sd(''memo'' := None))
   \<and> verifyCryptographicSignature lib (sd(''memo'' \<mapsto> JStr '''')) signature publicKey
       = verifyCryptographicSignature lib (sd(''memo'' := None)) signature publicKey"
proof -
  have d1: "sd(''maxSlippage'' \<mapsto> JNum (Fin 0)) \<noteq> sd(''maxSlippage'' \<mapsto> JNum (Fin (1 / 100)))"
    using map_upd_eqD1 [of sd "''maxSlippage''" "JNum (Fin 0)" sd "JNum (Fin (1 / 100))"] by auto
  have d2: "sd(''memo'' \<mapsto> JStr '''') \<noteq> sd(''memo'' := None)"
    by (metis fun_upd_same option.distinct(1))
  have e1: "entries lib (sd(''maxSlippage'' \<mapsto> JNum (Fin 0)))
          = entries lib (sd(''maxSlippage'' \<mapsto> JNum (Fin (1 / 100))))"
    by (simp add: entries_def getProp_def js_or_def)
  have e2: "entries lib (sd(''memo'' \<mapsto> JStr '''')) = entries lib (sd(''memo'' := None))"
    by (simp add: entries_def getProp_def js_or_def)
  show ?thesis
    using d1 d2 e1 e2
    by (simp add: createMessageToSign_def verifyCryptographicSignature_def)
qed

text \<open>
  At the example record both records of each pair also pass the business rules: the
  slippage values 0 and 0.01 are inside the allowed range.
\<close>

theorem encoder_not_injective_witness:
  "createMessageToSign exampleLib (exampleData(''maxSlippage'' \<mapsto> JNum (Fin 0)))
     = createMessageToSign exampleLib (exampleData(''maxSlippage'' \<mapsto> JNum (Fin (1 / 100))))
   \<and> performSecurityChecks exampleLib (exampleData(''maxSlippage'' \<mapsto> JNum (Fin 0))) = None
   \<and> performSecurityChecks exampleLib
         (exampleData(''maxSlippage'' \<mapsto> JNum (Fin (1 / 100)))) = None
   \<and> createMessageToSign exampleLib (exampleData(''memo'' \<mapsto> JStr ''''))
     = createMessageToSign exampleLib (exampleData(''memo'' := None))
   \<and> performSecurityChecks exampleLib (exampleData(''memo'' \<mapsto> JStr '''')) = None
   \<and> performSecurityChecks exampleLib (exampleData(''memo'' := None)) = None"
proof -
  have p1: "performSecurityChecks exampleLib (exampleData(''maxSlippage'' \<mapsto> JNum (Fin 0))) = None"
    by code_simp
  have p2: "performSecurityChecks exampleLib
              (exampleData(''maxSlippage'' \<mapsto> JNum (Fin (1 / 100)))) = None"
    by code_simp
  have p3: "performSecurityChecks exampleLib (exampleData(''memo'' \<mapsto> JStr '''')) = None"
    by code_simp
  have p4: "performSecurityChecks exampleLib (exampleData(''memo'' := None)) = None"
    by code_simp
  show ?thesis
    using encoder_not_injective [of exampleData exampleLib exampleSignature examplePublicKey]
      p1 p2 p3 p4
    by blast
qed

section \<open>Signer and verifier encoders\<close>

lemma js_or_truthy: "truthy a \<Longrightarrow> js_or a b = a"
  by (simp add: js_or_def)

lemma entries_agree:
  assumes "truthy (getProp sd ''version'')"
      and "truthy (getProp sd ''token'')"
      and "truthy (getProp sd ''memo'') \<or> getProp sd ''memo'' = JStr ''''"
      and "truthy (getProp sd ''maxSlippage'')"
  shows "SecurityUtils_entries lib sd = entries lib sd"
proof -
  have "js_or (getProp sd ''memo'') (JStr '''') = getProp sd ''memo''"
    using assms(3) by (auto simp: js_or_def)
  then show ?thesis
    using assms(1,2,4) by (simp add: SecurityUtils_entries_def entries_def js_or_truthy)
qed

lemma createSignatureData_populated:
  "truthy (getProp (createSignatureData e td) ''version'')
   \<and> truthy (getProp (createSignatureData e td) ''token'')
   \<and> (truthy (getProp (createSignatureData e td) ''memo'')
        \<or> getProp (createSignatureData e td) ''memo'' = JStr '''')
   \<and> truthy (getProp (createSignatureData e td) ''maxSlippage'')"
  by (simp add: createSignatureData_def getProp_def js_or_def Let_def)

text \<open>
  Claim C4, as amended. The signer's and the verifier's encoders give the same bytes
  for every record whose \<open>version\<close>, \<open>token\<close> and \<open>maxSlippage\<close> are truthy and
  whose \<open>memo\<close> is truthy or the empty string; every record that
  \<open>createSignatureData\<close> builds is one. Where \<open>version\<close> is absent the two
  messages differ: the signer writes \<open>undefined\<close> where the verifier writes its
  default \<open>1.0\<close>.
\<close>

theorem encoders_agree_when_populated:
  "(truthy (getProp sd ''version'') \<and> truthy (getProp sd ''token'')
      \<and> (truthy (getProp sd ''memo'') \<or> getProp sd ''memo'' = JStr '''')
      \<and> truthy (getProp sd ''maxSlippage'')
     \<longrightarrow> SecurityUtils_createMessageToSign lib sd = createMessageToSign lib sd)
   \<and> SecurityUtils_createMessageToSign lib (createSignatureData e transferData)
       = createMessageToSign lib (createSignatureData e transferData)
   \<and> (sd ''version'' = None
     \<longrightarrow> js_join delimiter (SecurityUtils_entries lib sd) \<noteq> js_join delimiter (entries lib sd))"
proof -
  have a: "truthy (getProp sd ''version'') \<and> truthy (getProp sd ''token'')
      \<and> (truthy (getProp sd ''memo'') \<or> getProp sd ''memo'' = JStr '''')
      \<and> truthy (getProp sd ''maxSlippage'')
     \<longrightarrow> SecurityUtils_createMessageToSign lib sd = createMessageToSign lib sd"
    using entries_agree [of sd lib]
    by (simp add: SecurityUtils_createMessageToSign_def createMessageToSign_def)
  have b: "SecurityUtils_createMessageToSign lib (createSignatureData e transferData)
       = createMessageToSign lib (createSignatureData e transferData)"
    using createSignatureData_populated [of e transferData]
      entries_agree [of "createSignatureData e transferData" lib]
    by (simp add: SecurityUtils_createMessageToSign_def createMessageToSign_def)
  have c1: "sd ''version'' = None \<Longrightarrow>
      js_join delimiter (SecurityUtils_entries lib sd) \<noteq> js_join delimiter (entries lib sd)"
    by (simp add: SecurityUtils_entries_def entries_def getProp_def js_or_def)
  show ?thesis
    using a b c1 by blast
qed

text \<open>
  The example record is fully populated, so its two encodings are equal; without its
  \<open>version\<close> they are not.
\<close>

theorem encoders_agree_when_populated_witness:
  "truthy (getProp exampleData ''version'') \<and> truthy (getProp exampleData ''token'')
   \<and> truthy (getProp exampleData ''memo'') \<and> truthy (getProp exampleData ''maxSlippage'')
   \<and> SecurityUtils_createMessageToSign exampleLib exampleData
       = createMessageToSign exampleLib exampleData
   \<and> (exampleData(''version'' := None)) ''version'' = None
   \<and> js_join delimiter (SecurityUtils_entries exampleLib (exampleData(''version'' := None)))
       \<noteq> js_join delimiter (entries exampleLib (exampleData(''version'' := None)))"
proof -
  have h: "truthy (getProp exampleData ''version'') \<and> truthy (getProp exampleData ''token'')
   \<and> truthy (getProp exampleData ''memo'') \<and> truthy (getProp exampleData ''maxSlippage'')"
    by (simp add: exampleData_def getProp_def)
  have n: "(exampleData(''version'' := None)) ''version'' = None"
    by simp
  show ?thesis
    using h n
      encoders_agree_when_populated [of exampleData exampleLib]
      encoders_agree_when_populated [of "exampleData(''version'' := None)" exampleLib]
    by blast
qed

text \<open>
  Claim C4 as stated fails: for the example record without its \<open>version\<close> field the
  signer's encoder and the verifier's give different bytes.
\<close>

theorem encoders_disagree_counterexample:
  "SecurityUtils_createMessageToSign exampleLib (exampleData(''version'' := None))
     \<noteq> createMessageToSign exampleLib (exampleData(''version'' := None))"
  by code_simp

section \<open>The time window\<close>

lemma js_gt_Fin: "js_gt (Fin a) (Fin b) = (b < a)"
  by (simp add: js_gt_def)

text \<open>
  For a record whose timestamp and expiry parse to numbers, the time-window check
  accepts exactly when \<open>timestamp \<le> now + 5 min\<close>, \<open>now \<le> expiry\<close> and
  \<open>expiry - timestamp \<le> 24 h\<close>. At \<open>now = expiry\<close> the record is accepted and one
  millisecond later it is rejected as expired; a window of exactly 24 hours is accepted
  and one millisecond more is rejected as too long.
\<close>

lemma time_window_numeric:
  assumes "js_parseInt lib (getProp sd ''timestamp'') = Fin t"
      and "js_parseInt lib (getProp sd ''expiry'') = Fin x"
  shows "(validateTimestamp lib e sd = None \<longleftrightarrow>
            t \<le> of_int (now e) + 5 * 60 * 1000 \<and> of_int (now e) \<le> x
            \<and> x - t \<le> 24 * 60 * 60 * 1000)
       \<and> (t \<le> of_int (now e) + 5 * 60 * 1000 \<and> of_int (now e) = x
            \<and> x - t \<le> 24 * 60 * 60 * 1000
          \<longrightarrow> validateTimestamp lib e sd = None)
       \<and> (t \<le> of_int (now e) + 5 * 60 * 1000 \<and> of_int (now e) = x + 1
          \<longrightarrow> validateTimestamp lib e sd = Some ''Signature has expired'')
       \<and> (t \<le> of_int (now e) + 5 * 60 * 1000 \<and> of_int (now e) \<le> x
            \<and> x - t = 24 * 60 * 60 * 1000
          \<longrightarrow> validateTimestamp lib e sd = None)
       \<and> (t \<le> of_int (now e) + 5 * 60 * 1000 \<and> of_int (now e) \<le> x
            \<and> x - t = 24 * 60 * 60 * 1000 + 1
          \<longrightarrow> validateTimestamp lib e sd = Some ''Signature validity window is too long'')"
  using assms
  by (auto simp: validateTimestamp_def js_gt_Fin maxClockSkew_def maxValidityWindow_def Let_def)

text \<open>
  The example record expires at \<open>1700000900000\<close>: it is accepted at that instant and
  rejected as expired at the next.
\<close>

lemma time_window_numeric_example:
  "js_parseInt exampleLib (getProp exampleData ''timestamp'') = Fin 1700000000000
   \<and> js_parseInt exampleLib (getProp exampleData ''expiry'') = Fin 1700000900000
   \<and> validateTimestamp exampleLib (atTime 1700000900000) exampleData = None
   \<and> validateTimestamp exampleLib (atTime 1700000900001) exampleData
       = Some ''Signature has expired''"
proof -
  have t: "js_parseInt exampleLib (getProp exampleData ''timestamp'') = Fin 1700000000000"
    by code_simp
  have x: "js_parseInt exampleLib (getProp exampleData ''expiry'') = Fin 1700000900000"
    by code_simp
  show ?thesis
    using t x
      time_window_numeric [OF t x, of "atTime 1700000900000"]
      time_window_numeric [OF t x, of "atTime 1700000900001"]
    by (simp add: atTime_def)
qed

lemma js_gt_NaN: "\<not> js_gt NaN a" "\<not> js_gt a NaN"
  by (cases a; simp add: js_gt_def)+

text \<open>
  Claim C5 does not hold of \<open>validateTimestamp\<close>: the check never tests whether
  \<open>parseInt\<close> gave a number. \<open>validateInputs\<close> asks only that \<open>timestamp\<close> and
  \<open>expiry\<close> are present, and every comparison with \<open>NaN\<close> is false, so a comparison
  that involves an unparsable field never rejects. When the expiry does not parse, the
  record is accepted at every instant from 5 minutes before its timestamp on: it never
  expires and its window has no bound. When the timestamp does not parse, the record is
  accepted at every instant up to its expiry, however far away that is. When neither
  parses, the record is accepted at every instant.
\<close>

theorem unparsable_time_fields_accepted:
  "(js_parseInt lib (getProp sd ''timestamp'') = Fin t
      \<and> js_parseInt lib (getProp sd ''expiry'') = NaN
    \<longrightarrow> (validateTimestamp lib e sd = None \<longleftrightarrow> t \<le> of_int (now e) + 5 * 60 * 1000))
   \<and> (js_parseInt lib (getProp sd ''timestamp'') = NaN
      \<and> js_parseInt lib (getProp sd ''expiry'') = Fin x
    \<longrightarrow> (validateTimestamp lib e sd = None \<longleftrightarrow> of_int (now e) \<le> x))
   \<and> (js_parseInt lib (getProp sd ''timestamp'') = NaN
      \<and> js_parseInt lib (getProp sd ''expiry'') = NaN
    \<longrightarrow> validateTimestamp lib e sd = None)"
  by (auto simp: validateTimestamp_def js_gt_Fin js_gt_NaN maxClockSkew_def Let_def)

text \<open>
  The example record with the expiry \<open>".5"\<close>, a string that the route's \<open>isNumeric\<close>
  validator lets through and that \<open>parseInt\<close> turns into \<open>NaN\<close>: it passes the
  time-window check, and the whole verification, at the instant \<open>4000000000000\<close>,
  some 72 years after its timestamp.
\<close>

theorem unparsable_time_fields_accepted_witness:
  "js_parseInt exampleLib (getProp (exampleData(''expiry'' \<mapsto> JStr ''.5'')) ''timestamp'')
     = Fin 1700000000000
   \<and> js_parseInt exampleLib (getProp (exampleData(''expiry'' \<mapsto> JStr ''.5'')) ''expiry'') = NaN
   \<and> validateTimestamp exampleLib (atTime 4000000000000)
        (exampleData(''expiry'' \<mapsto> JStr ''.5'')) = None
   \<and> isValid (fst (verifySignature exampleLib (atTime 4000000000000) exampleService
        (Some (exampleData(''expiry'' \<mapsto> JStr ''.5''))) exampleSignature examplePublicKey))"
proof -
  let ?sd = "exampleData(''expiry'' \<mapsto> JStr ''.5'')"
  have t: "js_parseInt exampleLib (getProp ?sd ''timestamp'') = Fin 1700000000000"
    by code_simp
  have x: "js_parseInt exampleLib (getProp ?sd ''expiry'') = NaN"
    by code_simp
  have v: "isValid (fst (verifySignature exampleLib (atTime 4000000000000) exampleService
             (Some ?sd) exampleSignature examplePublicKey))"
    by code_simp
  have "validateTimestamp exampleLib (atTime 4000000000000) ?sd = None"
    using unparsable_time_fields_accepted
            [of exampleLib ?sd 1700000000000 "atTime 4000000000000"] t x
    by (simp add: atTime_def)
  then show ?thesis
    using t x v by simp
qed

section \<open>The verdict and the nonce store\<close>


lemma verifySignature_Some:
  "verifySignature lib e s (Some sd) signature publicKey =
     (case firstFailure
             [validateInputs (Some sd) signature publicKey,
              validateTimestamp lib e sd,
              validateNonce lib e s (getProp sd ''nonce''),
              validateDomain lib s (getProp sd ''domain''),
              verifyCryptographicSignature lib sd signature publicKey,
              performSecurityChecks lib sd] of
        Some err \<Rightarrow> (Invalid err, s)
      | None \<Rightarrow>
         (case consumeNonce lib e s (getProp sd ''nonce'') of
            Inl message \<Rightarrow> (Invalid (''Signature verification failed: '' @ message), s)
          | Inr s' \<Rightarrow> (Valid sd, s')))"
  by (simp add: verifySignature_def split: option.splits sum.splits)

lemma verifySignature_Invalid_state:
  "verifySignature lib e s signatureData signature publicKey = (Invalid err, s') \<Longrightarrow> s' = s"
  by (auto simp: verifySignature_def split: option.splits sum.splits)

lemma verifySignature_ValidD:
  assumes "verifySignature lib e s signatureData signature publicKey = (Valid d, s')"
  shows "signatureData = Some d
       \<and> validateInputs signatureData signature publicKey = None
       \<and> validateTimestamp lib e d = None
       \<and> validateNonce lib e s (getProp d ''nonce'') = None
       \<and> validateDomain lib s (getProp d ''domain'') = None
       \<and> verifyCryptographicSignature lib d signature publicKey = None
       \<and> performSecurityChecks lib d = None
       \<and> consumeNonce lib e s (getProp d ''nonce'') = Inr s'"
  using assms
  by (auto simp: verifySignature_def split: option.splits sum.splits)

lemma verifySignature_ValidI:
  assumes "validateInputs (Some sd) signature publicKey = None"
      and "validateTimestamp lib e sd = None"
      and "validateNonce lib e s (getProp sd ''nonce'') = None"
      and "validateDomain lib s (getProp sd ''domain'') = None"
      and "verifyCryptographicSignature lib sd signature publicKey = None"
      and "performSecurityChecks lib sd = None"
      and "consumeNonce lib e s (getProp sd ''nonce'') = Inr s'"
  shows "verifySignature lib e s (Some sd) signature publicKey = (Valid sd, s')"
  using assms by (simp add: verifySignature_def)

lemma consumeNonce_memory:
  assumes "redis s = None"
  shows "consumeNonce lib e s nonce =
           Inr (cleanupNonceCache e (s\<lparr>nonceCache := (nonceCache s)(nonce \<mapsto> now e)\<rparr>))"
  using assms by (simp add: consumeNonce_def)

lemma consumeNonce_recorded:
  assumes "consumeNonce lib e s nonce = Inr s'"
      and "now e \<le> now e'"
      and "redis s \<noteq> None \<longrightarrow> \<not> readFails e' \<and> now e' < now e + 24 * 60 * 60 * 1000"
  shows "isNonceUsed lib e' s' nonce"
proof (cases "redis s")
  case None
  then have "s' = cleanupNonceCache e (s\<lparr>nonceCache := (nonceCache s)(nonce \<mapsto> now e)\<rparr>)"
    using assms(1) by (simp add: consumeNonce_def)
  then show ?thesis
    using None by (simp add: isNonceUsed_def cleanupNonceCache_def)
next
  case (Some db)
  then have "s' = s\<lparr>redis :=
      Some (redis_setEx (now e) db (nonceKey lib nonce) (24 * 60 * 60) ''used'')\<rparr>"
    using assms(1) by (auto simp: consumeNonce_def split: if_splits)
  then show ?thesis
    using Some assms(2,3) by (simp add: isNonceUsed_def redis_get_def redis_setEx_def)
qed

lemma validateNonce_passed_format:
  assumes "validateNonce lib e s nonce = None"
  shows "isNonEmptyString nonce \<and> matchesBase64Url (toStr lib nonce)"
  using assms by (auto simp: validateNonce_def split: if_splits)

lemma validateNonce_used:
  assumes "isNonEmptyString nonce" and "matchesBase64Url (toStr lib nonce)"
      and "isNonceUsed lib e s nonce"
  shows "validateNonce lib e s nonce = Some replayError"
  using assms by (simp add: validateNonce_def replayError_def)

text \<open>
  Claim C7. Whatever the reason, an \<open>Invalid\<close> verdict leaves the state of the
  service, and with it the nonce store, exactly as it was. A \<open>Valid\<close> verdict is
  returned only after \<open>consumeNonce\<close> has written the record's nonce, and a lookup
  of that nonce in the resulting store finds it. So the call consumes the nonce if
  and only if its verdict is \<open>Valid\<close>.
\<close>

theorem verdict_and_store:
  assumes "verifySignature lib e s signatureData signature publicKey = (v, s')"
  shows "(\<forall>err. v = Invalid err \<longrightarrow> s' = s)
       \<and> (\<forall>d. v = Valid d \<longrightarrow>
              signatureData = Some d
              \<and> consumeNonce lib e s (getProp d ''nonce'') = Inr s'
              \<and> isNonceUsed lib (e\<lparr>readFails := False\<rparr>) s' (getProp d ''nonce''))"
proof (intro conjI allI impI)
  fix err assume "v = Invalid err"
  then show "s' = s"
    using assms verifySignature_Invalid_state by blast
next
  fix d assume v: "v = Valid d"
  then have D: "signatureData = Some d \<and> consumeNonce lib e s (getProp d ''nonce'') = Inr s'"
    using assms verifySignature_ValidD by blast
  then show "signatureData = Some d" by simp
  show "consumeNonce lib e s (getProp d ''nonce'') = Inr s'"
    using D by simp
  show "isNonceUsed lib (e\<lparr>readFails := False\<rparr>) s' (getProp d ''nonce'')"
    using D consumeNonce_recorded [of lib e s "getProp d ''nonce''" s' "e\<lparr>readFails := False\<rparr>"]
    by simp
qed

lemma example_checks:
  "validateInputs (Some exampleData) exampleSignature examplePublicKey = None"
  "validateTimestamp exampleLib (atTime 1700000000000) exampleData = None"
  "validateNonce exampleLib (atTime 1700000000000) exampleService (getProp exampleData ''nonce'') = None"
  "validateDomain exampleLib exampleService (getProp exampleData ''domain'') = None"
  "verifyCryptographicSignature exampleLib exampleData exampleSignature examplePublicKey = None"
  "performSecurityChecks exampleLib exampleData = None"
  by code_simp+

lemma example_valid:
  "verifySignature exampleLib (atTime 1700000000000) exampleService (Some exampleData)
     exampleSignature examplePublicKey
   = (Valid exampleData,
      cleanupNonceCache (atTime 1700000000000)
        (exampleService\<lparr>nonceCache :=
           (nonceCache exampleService)(getProp exampleData ''nonce'' \<mapsto> 1700000000000)\<rparr>))"
proof -
  have "redis exampleService = None"
    by (simp add: exampleService_def)
  then have "consumeNonce exampleLib (atTime 1700000000000) exampleService (getProp exampleData ''nonce'')
     = Inr (cleanupNonceCache (atTime 1700000000000)
        (exampleService\<lparr>nonceCache :=
           (nonceCache exampleService)(getProp exampleData ''nonce'' \<mapsto> 1700000000000)\<rparr>))"
    by (simp add: consumeNonce_memory atTime_def)
  then show ?thesis
    using example_checks by (rule_tac verifySignature_ValidI) 
qed

text \<open>
  The example record is accepted at \<open>1700000000000\<close> and its nonce is then in the
  cache; presented to the fresh service after its expiry it is rejected and the
  service is unchanged.
\<close>

theorem verdict_and_store_witness:
  "fst (verifySignature exampleLib (atTime 1700000000000) exampleService (Some exampleData)
          exampleSignature examplePublicKey) = Valid exampleData
   \<and> isNonceUsed exampleLib (atTime 1700000000000)
        (snd (verifySignature exampleLib (atTime 1700000000000) exampleService (Some exampleData)
                exampleSignature examplePublicKey))
        (getProp exampleData ''nonce'')
   \<and> fst (verifySignature exampleLib (atTime 1700000900001) exampleService (Some exampleData)
          exampleSignature examplePublicKey) = Invalid ''Signature has expired''
   \<and> snd (verifySignature exampleLib (atTime 1700000900001) exampleService (Some exampleData)
          exampleSignature examplePublicKey) = exampleService"
proof -
  let ?r1 = "verifySignature exampleLib (atTime 1700000000000) exampleService (Some exampleData)
          exampleSignature examplePublicKey"
  let ?r2 = "verifySignature exampleLib (atTime 1700000900001) exampleService (Some exampleData)
          exampleSignature examplePublicKey"
  have v1: "fst ?r1 = Valid exampleData"
    by (simp add: example_valid)
  have t: "validateTimestamp exampleLib (atTime 1700000900001) exampleData
             = Some ''Signature has expired''"
    by code_simp
  have v2: "fst ?r2 = Invalid ''Signature has expired''"
    by (simp add: verifySignature_Some example_checks(1) t)
  have e: "(atTime 1700000000000)\<lparr>readFails := False\<rparr> = atTime 1700000000000"
    by (simp add: atTime_def)
  have p1: "?r1 = (fst ?r1, snd ?r1)" and p2: "?r2 = (fst ?r2, snd ?r2)"
    by simp_all
  have u1: "isNonceUsed exampleLib ((atTime 1700000000000)\<lparr>readFails := False\<rparr>) (snd ?r1)
              (getProp exampleData ''nonce'')"
    using verdict_and_store [OF p1] v1 by blast
  have u2: "snd ?r2 = exampleService"
    using verdict_and_store [OF p2] v2 by blast
  show ?thesis
    using v1 v2 u1 u2 unfolding e by blast
qed

section \<open>The order of the checks\<close>




section \<open>The version rule\<close>

lemma firstFailure_None_iff: "firstFailure checks = None \<longleftrightarrow> (\<forall>c \<in> set checks. c = None)"
  by (induction checks rule: firstFailure.induct) auto

lemma getProp_other: "name \<noteq> name' \<Longrightarrow> getProp (sd(name' := v)) name = getProp sd name"
  by (simp add: getProp_def)

lemma performSecurityChecks_version:
  "performSecurityChecks lib sd = Some ''Unsupported signature version''
   \<longleftrightarrow> performSecurityChecks lib (sd(''version'' := None)) = None
       \<and> truthy (getProp sd ''version'') \<and> getProp sd ''version'' \<noteq> JStr ''1.0''"
  by (auto simp: performSecurityChecks_def getProp_other Let_def js_strict_eq_def
      getProp_def [of "sd(''version'' := None)" "''version''"])

text \<open>
  Claim C8, as amended. A record is accepted only if its \<open>version\<close> is falsy (absent,
  \<open>null\<close>, empty) or equal to \<open>1.0\<close>. The version rule is the last of the business
  rules: it is the one that fails exactly when the record would pass them without its
  version and the version is truthy and not \<open>1.0\<close>; and when the five earlier checks
  pass as well, the verdict is the unsupported-version failure.
\<close>

theorem version_gate:
  "(verifySignature lib e s signatureData signature publicKey = (Valid d, s')
      \<longrightarrow> \<not> truthy (getProp d ''version'') \<or> getProp d ''version'' = JStr ''1.0'')
   \<and> (performSecurityChecks lib sd = Some ''Unsupported signature version''
      \<longleftrightarrow> performSecurityChecks lib (sd(''version'' := None)) = None
          \<and> truthy (getProp sd ''version'') \<and> getProp sd ''version'' \<noteq> JStr ''1.0'')
   \<and> (firstFailure
         [validateInputs (Some sd) signature publicKey,
          validateTimestamp lib e sd,
          validateNonce lib e s (getProp sd ''nonce''),
          validateDomain lib s (getProp sd ''domain''),
          verifyCryptographicSignature lib sd signature publicKey] = None
        \<and> performSecurityChecks lib sd = Some ''Unsupported signature version''
      \<longrightarrow> verifySignature lib e s (Some sd) signature publicKey
            = (Invalid ''Unsupported signature version'', s))"
proof -
  have a: "verifySignature lib e s signatureData signature publicKey = (Valid d, s')
      \<longrightarrow> \<not> truthy (getProp d ''version'') \<or> getProp d ''version'' = JStr ''1.0''"
  proof
    assume "verifySignature lib e s signatureData signature publicKey = (Valid d, s')"
    then have "performSecurityChecks lib d = None"
      using verifySignature_ValidD by blast
    then show "\<not> truthy (getProp d ''version'') \<or> getProp d ''version'' = JStr ''1.0''"
      by (auto simp: performSecurityChecks_def Let_def js_strict_eq_def split: if_splits)
  qed
  have c: "firstFailure
         [validateInputs (Some sd) signature publicKey,
          validateTimestamp lib e sd,
          validateNonce lib e s (getProp sd ''nonce''),
          validateDomain lib s (getProp sd ''domain''),
          verifyCryptographicSignature lib sd signature publicKey] = None
        \<and> performSecurityChecks lib sd = Some ''Unsupported signature version''
      \<longrightarrow> verifySignature lib e s (Some sd) signature publicKey
            = (Invalid ''Unsupported signature version'', s)"
    by (auto simp: verifySignature_Some firstFailure_None_iff)
  show ?thesis
    using a performSecurityChecks_version c by blast
qed

text \<open>
  The example record is accepted with its version \<open>1.0\<close>; with version \<open>2.0\<close> the
  same call is rejected as an unsupported version.
\<close>

theorem version_gate_witness:
  "verifySignature exampleLib (atTime 1700000000000) exampleService
       (Some (exampleData(''version'' \<mapsto> JStr ''2.0''))) exampleSignature examplePublicKey
     = (Invalid ''Unsupported signature version'', exampleService)
   \<and> fst (verifySignature exampleLib (atTime 1700000000000) exampleService (Some exampleData)
          exampleSignature examplePublicKey) = Valid exampleData
   \<and> getProp exampleData ''version'' = JStr ''1.0''"
proof -
  let ?V = "exampleData(''version'' \<mapsto> JStr ''2.0'')"
  have f: "firstFailure
         [validateInputs (Some ?V) exampleSignature examplePublicKey,
          validateTimestamp exampleLib (atTime 1700000000000) ?V,
          validateNonce exampleLib (atTime 1700000000000) exampleService (getProp ?V ''nonce''),
          validateDomain exampleLib exampleService (getProp ?V ''domain''),
          verifyCryptographicSignature exampleLib ?V exampleSignature examplePublicKey] = None"
    by code_simp
  have p: "performSecurityChecks exampleLib ?V = Some ''Unsupported signature version''"
    by code_simp
  have v: "fst (verifySignature exampleLib (atTime 1700000000000) exampleService (Some exampleData)
          exampleSignature examplePublicKey) = Valid exampleData"
    by (simp add: example_valid)
  have g: "getProp exampleData ''version'' = JStr ''1.0''"
    by (simp add: exampleData_def getProp_def)
  show ?thesis
    using f p v g
      version_gate [of exampleLib "atTime 1700000000000" exampleService "Some exampleData"
        exampleSignature examplePublicKey exampleData
        "snd (verifySignature exampleLib (atTime 1700000000000) exampleService (Some exampleData)
          exampleSignature examplePublicKey)" ?V]
    by blast
qed

text \<open>
  Claim C8 as stated fails: the example record without any \<open>version\<close> field is
  accepted.
\<close>

theorem version_gate_counterexample:
  "(exampleData(''version'' := None)) ''version'' = None
   \<and> isValid (fst (verifySignature exampleLib (atTime 1700000000000) exampleService
         (Some (exampleData(''version'' := None))) exampleSignature examplePublicKey))"
proof -
  have "isValid (fst (verifySignature exampleLib (atTime 1700000000000) exampleService
         (Some (exampleData(''version'' := None))) exampleSignature examplePublicKey))"
    by code_simp
  then show ?thesis by simp
qed

section \<open>Single use\<close>

lemma consumeNonce_succeeds:
  assumes "redis s \<noteq> None \<longrightarrow> \<not> writeFails e"
  shows "\<exists>s'. consumeNonce lib e s nonce = Inr s'"
  using assms by (cases "redis s") (auto simp: consumeNonce_def)

lemma consumeNonce_frame:
  assumes "consumeNonce lib e s nonce = Inr s'"
  shows "SUPPORTED_DOMAINS s' = SUPPORTED_DOMAINS s \<and> (redis s' = None \<longleftrightarrow> redis s = None)"
  using assms
  by (cases "redis s") (auto simp: consumeNonce_def cleanupNonceCache_def split: if_splits)

text \<open>
  The key that \<open>consumeNonce\<close> writes to Redis lives 24 hours: from that age on, a
  lookup no longer finds the nonce.
\<close>

lemma consumeNonce_forgotten:
  assumes "consumeNonce lib e s nonce = Inr s'"
      and "redis s \<noteq> None"
      and "now e + 24 * 60 * 60 * 1000 \<le> now e'"
  shows "\<not> isNonceUsed lib e' s' nonce"
proof -
  obtain db where db: "redis s = Some db"
    using assms(2) by auto
  then have "s' = s\<lparr>redis :=
      Some (redis_setEx (now e) db (nonceKey lib nonce) (24 * 60 * 60) ''used'')\<rparr>"
    using assms(1) by (auto simp: consumeNonce_def split: if_splits)
  then show ?thesis
    using assms(3) by (simp add: isNonceUsed_def redis_get_def redis_setEx_def)
qed

text \<open>
  Claim C1 does not hold of \<open>verifySignature\<close>. The time-window check lets a record
  live longer than the store remembers its nonce: the timestamp may lie up to 5 minutes
  ahead of the verifier's clock and the expiry up to 24 hours after the timestamp,
  while \<open>consumeNonce\<close> writes the Redis key with a time to live of 24 hours. So when
  a record that passes every check is accepted on a Redis store, and the identical
  record, signature and public key are presented again 24 hours later or more, at an
  instant at which the record is still inside its time window, the second call is
  accepted too.
\<close>

theorem replay_after_time_to_live:
  assumes checks:
      "firstFailure
         [validateInputs (Some sd) signature publicKey,
          validateTimestamp lib e sd,
          validateNonce lib e s (getProp sd ''nonce''),
          validateDomain lib s (getProp sd ''domain''),
          verifyCryptographicSignature lib sd signature publicKey,
          performSecurityChecks lib sd] = None"
      and store: "redis s \<noteq> None"
      and writable: "\<not> writeFails e" "\<not> writeFails e'"
      and later: "now e + 24 * 60 * 60 * 1000 \<le> now e'"
      and window: "validateTimestamp lib e' sd = None"
  shows "fst (verifySignature lib e s (Some sd) signature publicKey) = Valid sd
       \<and> fst (verifySignature lib e'
                (snd (verifySignature lib e s (Some sd) signature publicKey))
                (Some sd) signature publicKey) = Valid sd"
proof -
  from checks
  have inputs: "validateInputs (Some sd) signature publicKey = None"
    and nonce: "validateNonce lib e s (getProp sd ''nonce'') = None"
    and domain: "validateDomain lib s (getProp sd ''domain'') = None"
    and crypto: "verifyCryptographicSignature lib sd signature publicKey = None"
    and rules: "performSecurityChecks lib sd = None"
    by (simp_all add: firstFailure_None_iff)
  obtain s1 where c1: "consumeNonce lib e s (getProp sd ''nonce'') = Inr s1"
    using consumeNonce_succeeds [of s e] writable(1) by blast
  have first: "verifySignature lib e s (Some sd) signature publicKey = (Valid sd, s1)"
    using checks c1 by (simp add: verifySignature_Some)
  have frame: "SUPPORTED_DOMAINS s1 = SUPPORTED_DOMAINS s" "redis s1 \<noteq> None"
    using consumeNonce_frame [OF c1] store by simp_all
  have "\<not> isNonceUsed lib e' s1 (getProp sd ''nonce'')"
    using c1 store later by (rule consumeNonce_forgotten)
  then have nonce': "validateNonce lib e' s1 (getProp sd ''nonce'') = None"
    using validateNonce_passed_format [OF nonce] by (simp add: validateNonce_def)
  have "validateDomain lib s1 (getProp sd ''domain'') = validateDomain lib s (getProp sd ''domain'')"
    by (simp only: validateDomain_def frame(1))
  then have domain': "validateDomain lib s1 (getProp sd ''domain'') = None"
    using domain by simp
  obtain s2 where c2: "consumeNonce lib e' s1 (getProp sd ''nonce'') = Inr s2"
    using consumeNonce_succeeds [of s1 e'] writable(2) by blast
  have second: "verifySignature lib e' s1 (Some sd) signature publicKey = (Valid sd, s2)"
    using inputs window nonce' domain' crypto rules c2 by (rule verifySignature_ValidI)
  show ?thesis
    using first second by simp
qed

text \<open>
  A record whose timestamp is 5 minutes ahead of the verifier's clock and whose expiry
  is 24 hours after its timestamp is accepted at \<open>1700000000000\<close> on an empty Redis
  store, and accepted again exactly 24 hours later.
\<close>

theorem replay_after_time_to_live_witness:
  "fst (verifySignature exampleLib (atTime 1700000000000)
          (exampleService\<lparr>redis := Some Map.empty\<rparr>)
          (Some (exampleData(''timestamp'' \<mapsto> JNum (Fin 1700000300000),
                             ''expiry'' \<mapsto> JNum (Fin 1700086700000))))
          exampleSignature examplePublicKey)
     = Valid (exampleData(''timestamp'' \<mapsto> JNum (Fin 1700000300000),
                          ''expiry'' \<mapsto> JNum (Fin 1700086700000)))
   \<and> fst (verifySignature exampleLib (atTime 1700086400000)
            (snd (verifySignature exampleLib (atTime 1700000000000)
                    (exampleService\<lparr>redis := Some Map.empty\<rparr>)
                    (Some (exampleData(''timestamp'' \<mapsto> JNum (Fin 1700000300000),
                                       ''expiry'' \<mapsto> JNum (Fin 1700086700000))))
                    exampleSignature examplePublicKey))
            (Some (exampleData(''timestamp'' \<mapsto> JNum (Fin 1700000300000),
                               ''expiry'' \<mapsto> JNum (Fin 1700086700000))))
            exampleSignature examplePublicKey)
     = Valid (exampleData(''timestamp'' \<mapsto> JNum (Fin 1700000300000),
                          ''expiry'' \<mapsto> JNum (Fin 1700086700000)))"
proof -
  let ?sd = "exampleData(''timestamp'' \<mapsto> JNum (Fin 1700000300000),
                         ''expiry'' \<mapsto> JNum (Fin 1700086700000))"
  let ?s = "exampleService\<lparr>redis := Some Map.empty\<rparr>"
  have c: "validateInputs (Some ?sd) exampleSignature examplePublicKey = None"
      "validateTimestamp exampleLib (atTime 1700000000000) ?sd = None"
      "validateNonce exampleLib (atTime 1700000000000) ?s (getProp ?sd ''nonce'') = None"
      "validateDomain exampleLib ?s (getProp ?sd ''domain'') = None"
      "verifyCryptographicSignature exampleLib ?sd exampleSignature examplePublicKey = None"
      "performSecurityChecks exampleLib ?sd = None"
    by code_simp+
  have checks:
      "firstFailure
         [validateInputs (Some ?sd) exampleSignature examplePublicKey,
          validateTimestamp exampleLib (atTime 1700000000000) ?sd,
          validateNonce exampleLib (atTime 1700000000000) ?s (getProp ?sd ''nonce''),
          validateDomain exampleLib ?s (getProp ?sd ''domain''),
          verifyCryptographicSignature exampleLib ?sd exampleSignature examplePublicKey,
          performSecurityChecks exampleLib ?sd] = None"
    by (simp add: c)
  have store: "redis ?s \<noteq> None"
    by simp
  have writable: "\<not> writeFails (atTime 1700000000000)" "\<not> writeFails (atTime 1700086400000)"
    by (simp_all add: atTime_def)
  have later: "now (atTime 1700000000000) + 24 * 60 * 60 * 1000 \<le> now (atTime 1700086400000)"
    by (simp add: atTime_def)
  have window: "validateTimestamp exampleLib (atTime 1700086400000) ?sd = None"
    by code_simp
  show ?thesis
    using replay_after_time_to_live [OF checks store writable later window] .
qed

text \<open>
  The in-memory fallback forgets in the same way: \<open>cleanupNonceCache\<close>, run by every
  \<open>consumeNonce\<close>, deletes the entries older than 24 hours. Here the record above is
  accepted at \<open>1700000000000\<close>; one millisecond past 24 hours later another record,
  with another nonce, is accepted, which purges the first nonce; and the first record,
  presented again at that instant, is accepted a second time.
\<close>

lemma replay_after_cleanup_example:
  "isValid (fst (verifySignature exampleLib (atTime 1700000000000) exampleService
       (Some (exampleData(''timestamp'' \<mapsto> JNum (Fin 1700000300000),
                          ''expiry'' \<mapsto> JNum (Fin 1700086700000))))
       exampleSignature examplePublicKey))
   \<and> isValid (fst (verifySignature exampleLib (atTime 1700086400001)
       (snd (verifySignature exampleLib (atTime 1700000000000) exampleService
         (Some (exampleData(''timestamp'' \<mapsto> JNum (Fin 1700000300000),
                            ''expiry'' \<mapsto> JNum (Fin 1700086700000))))
         exampleSignature examplePublicKey))
       (Some (exampleData(''nonce'' \<mapsto> JStr (replicate 43 (CHR ''B'')),
                          ''timestamp'' \<mapsto> JNum (Fin 1700086400000),
                          ''expiry'' \<mapsto> JNum (Fin 1700087300000))))
       exampleSignature examplePublicKey))
   \<and> isValid (fst (verifySignature exampleLib (atTime 1700086400001)
       (snd (verifySignature exampleLib (atTime 1700086400001)
         (snd (verifySignature exampleLib (atTime 1700000000000) exampleService
           (Some (exampleData(''timestamp'' \<mapsto> JNum (Fin 1700000300000),
                              ''expiry'' \<mapsto> JNum (Fin 1700086700000))))
           exampleSignature examplePublicKey))
         (Some (exampleData(''nonce'' \<mapsto> JStr (replicate 43 (CHR ''B'')),
                            ''timestamp'' \<mapsto> JNum (Fin 1700086400000),
                            ''expiry'' \<mapsto> JNum (Fin 1700087300000))))
         exampleSignature examplePublicKey))
       (Some (exampleData(''timestamp'' \<mapsto> JNum (Fin 1700000300000),
                          ''expiry'' \<mapsto> JNum (Fin 1700086700000))))
       exampleSignature examplePublicKey))"
  by code_simp

section \<open>Failures of the nonce store\<close>







section \<open>Calls that overlap on one nonce\<close>

lemma verifySignature_segments:
  "verifySignature lib e s signatureData signature publicKey =
     (case verifySignature_lookup lib e s signatureData signature publicKey of
        Some err \<Rightarrow> (Invalid err, s)
      | None \<Rightarrow> verifySignature_resume lib e s signatureData signature publicKey)"
  by (simp add: verifySignature_def verifySignature_lookup_def verifySignature_resume_def
      split: option.splits)

lemma run_one_call:
  "run lib e [0, 0] (s, [Issued signatureData signature publicKey]) =
     (snd (verifySignature lib e s signatureData signature publicKey),
      [Returned (fst (verifySignature lib e s signatureData signature publicKey))])"
  by (cases "verifySignature_lookup lib e s signatureData signature publicKey")
     (auto simp: verifySignature_segments split: prod.splits)

lemma validateAndConsume_segments:
  "validateAndConsume lib e m nonce metadata =
     (case validateAndConsume_lookup lib e m nonce of
        Some err \<Rightarrow> (Some err, m)
      | None \<Rightarrow> validateAndConsume_resume lib e m nonce metadata)"
  by (simp add: validateAndConsume_def validateAndConsume_lookup_def
      validateAndConsume_resume_def)

lemma verifySignature_resume_Valid:
  assumes "validateDomain lib s (getProp sd ''domain'') = None"
      and "verifyCryptographicSignature lib sd signature publicKey = None"
      and "performSecurityChecks lib sd = None"
      and "consumeNonce lib e s (getProp sd ''nonce'') = Inr s'"
  shows "verifySignature_resume lib e s (Some sd) signature publicKey = (Valid sd, s')"
  using assms by (simp add: verifySignature_resume_def)

lemma nm_store_succeeds:
  assumes "isValidNonceFormat lib nonce" and "nm_redis m \<noteq> None \<longrightarrow> \<not> writeFails e"
  shows "\<exists>m'. nm_store lib e m nonce metadata = Inr m'
              \<and> (nm_redis m' \<noteq> None \<longrightarrow> \<not> writeFails e)"
  using assms by (cases "nm_redis m") (auto simp: nm_store_def)

text \<open>
  Claim C2. The claim holds of no execution in which two calls overlap: the nonce is
  claimed by a lookup followed, after an \<open>await\<close>, by a separate write. Take any
  record that passes every check while its nonce is unused. When two calls carrying
  it are scheduled so that both look the nonce up before either writes it (schedule
  0, 1, 0, 1), both return \<open>Valid\<close>. Run one after the other (schedule 0, 0, 1, 1),
  the second gets the replay error. \<open>NonceManager.validateAndConsume\<close> has the same
  shape: two calls whose lookups both found nothing both store the nonce and succeed.
\<close>

theorem overlapping_calls_both_valid:
  assumes checks:
      "firstFailure
         [validateInputs (Some sd) signature publicKey,
          validateTimestamp lib e sd,
          validateNonce lib e s (getProp sd ''nonce''),
          validateDomain lib s (getProp sd ''domain''),
          verifyCryptographicSignature lib sd signature publicKey,
          performSecurityChecks lib sd] = None"
      and writable: "redis s \<noteq> None \<longrightarrow> \<not> writeFails e"
  shows "snd (run lib e [0, 1, 0, 1]
                (s, [Issued (Some sd) signature publicKey, Issued (Some sd) signature publicKey]))
           = [Returned (Valid sd), Returned (Valid sd)]
       \<and> ((redis s \<noteq> None \<longrightarrow> \<not> readFails e) \<longrightarrow>
           snd (run lib e [0, 0, 1, 1]
                (s, [Issued (Some sd) signature publicKey, Issued (Some sd) signature publicKey]))
           = [Returned (Valid sd), Returned (Invalid replayError)])
       \<and> (validateAndConsume_lookup lib e m nonce = None
            \<and> (nm_redis m \<noteq> None \<longrightarrow> \<not> writeFails e)
          \<longrightarrow> (\<exists>m1 m2. validateAndConsume_resume lib e m nonce metadata = (None, m1)
                      \<and> validateAndConsume_resume lib e m1 nonce metadata' = (None, m2)))"
proof -
  from checks
  have c1: "validateInputs (Some sd) signature publicKey = None"
    and c2: "validateTimestamp lib e sd = None"
    and c3: "validateNonce lib e s (getProp sd ''nonce'') = None"
    and c4: "validateDomain lib s (getProp sd ''domain'') = None"
    and c5: "verifyCryptographicSignature lib sd signature publicKey = None"
    and c6: "performSecurityChecks lib sd = None"
    by (simp_all add: firstFailure_None_iff)
  have look: "verifySignature_lookup lib e s (Some sd) signature publicKey = None"
    by (simp add: verifySignature_lookup_def c1 c2 c3)
  obtain s1 where w1: "consumeNonce lib e s (getProp sd ''nonce'') = Inr s1"
    using consumeNonce_succeeds [OF writable] by blast
  have f1: "SUPPORTED_DOMAINS s1 = SUPPORTED_DOMAINS s" and r1: "redis s1 = None \<longleftrightarrow> redis s = None"
    using consumeNonce_frame [OF w1] by simp_all
  have "redis s1 \<noteq> None \<longrightarrow> \<not> writeFails e"
    using writable r1 by simp
  then obtain s2 where w2: "consumeNonce lib e s1 (getProp sd ''nonce'') = Inr s2"
    using consumeNonce_succeeds by blast
  have d1: "validateDomain lib s1 (getProp sd ''domain'') = None"
    using c4 by (simp only: validateDomain_def f1)
  have res0: "verifySignature_resume lib e s (Some sd) signature publicKey = (Valid sd, s1)"
    using c4 c5 c6 w1 by (rule verifySignature_resume_Valid)
  have res1: "verifySignature_resume lib e s1 (Some sd) signature publicKey = (Valid sd, s2)"
    using d1 c5 c6 w2 by (rule verifySignature_resume_Valid)
  have overlap: "snd (run lib e [0, 1, 0, 1]
                (s, [Issued (Some sd) signature publicKey, Issued (Some sd) signature publicKey]))
           = [Returned (Valid sd), Returned (Valid sd)]"
    by (simp add: look res0 res1)
  have sequential: "snd (run lib e [0, 0, 1, 1]
                (s, [Issued (Some sd) signature publicKey, Issued (Some sd) signature publicKey]))
           = [Returned (Valid sd), Returned (Invalid replayError)]"
    if rd: "redis s \<noteq> None \<longrightarrow> \<not> readFails e"
  proof -
    have "redis s \<noteq> None \<longrightarrow> \<not> readFails e \<and> now e < now e + 24 * 60 * 60 * 1000"
      using rd by simp
    then have "isNonceUsed lib e s1 (getProp sd ''nonce'')"
      using consumeNonce_recorded [OF w1, of e] by simp
    then have "validateNonce lib e s1 (getProp sd ''nonce'') = Some replayError"
      using validateNonce_passed_format [OF c3] by (simp add: validateNonce_used)
    then have look1: "verifySignature_lookup lib e s1 (Some sd) signature publicKey
                       = Some replayError"
      by (simp add: verifySignature_lookup_def c1 c2)
    show ?thesis
      by (simp add: look res0 look1)
  qed
  have manager: "\<exists>m1 m2. validateAndConsume_resume lib e m nonce metadata = (None, m1)
                      \<and> validateAndConsume_resume lib e m1 nonce metadata' = (None, m2)"
    if lk: "validateAndConsume_lookup lib e m nonce = None"
      and wr: "nm_redis m \<noteq> None \<longrightarrow> \<not> writeFails e"
  proof -
    have fmt: "isValidNonceFormat lib nonce"
      using lk by (auto simp: validateAndConsume_lookup_def split: if_splits)
    from nm_store_succeeds [OF fmt wr, of metadata]
    obtain m1 where a: "nm_store lib e m nonce metadata = Inr m1"
      and b: "nm_redis m1 \<noteq> None \<longrightarrow> \<not> writeFails e"
      by (elim exE conjE)
    from nm_store_succeeds [OF fmt b, of metadata']
    obtain m2 where c: "nm_store lib e m1 nonce metadata' = Inr m2"
      by (elim exE conjE)
    show ?thesis
      using a c by (simp add: validateAndConsume_resume_def)
  qed
  show ?thesis
  proof (intro conjI impI)
    show "snd (run lib e [0, 1, 0, 1]
                (s, [Issued (Some sd) signature publicKey, Issued (Some sd) signature publicKey]))
           = [Returned (Valid sd), Returned (Valid sd)]"
      by (rule overlap)
  next
    assume "redis s \<noteq> None \<longrightarrow> \<not> readFails e"
    then show "snd (run lib e [0, 0, 1, 1]
                (s, [Issued (Some sd) signature publicKey, Issued (Some sd) signature publicKey]))
           = [Returned (Valid sd), Returned (Invalid replayError)]"
      by (rule sequential)
  next
    assume "validateAndConsume_lookup lib e m nonce = None
            \<and> (nm_redis m \<noteq> None \<longrightarrow> \<not> writeFails e)"
    then show "\<exists>m1 m2. validateAndConsume_resume lib e m nonce metadata = (None, m1)
                      \<and> validateAndConsume_resume lib e m1 nonce metadata' = (None, m2)"
      using manager by (elim conjE)
  qed
qed

text \<open>
  Two overlapping calls with the example record on the example service: both are
  accepted.
\<close>

theorem overlapping_calls_both_valid_witness:
  "snd (run exampleLib (atTime 1700000000000) [0, 1, 0, 1]
          (exampleService,
           [Issued (Some exampleData) exampleSignature examplePublicKey,
            Issued (Some exampleData) exampleSignature examplePublicKey]))
     = [Returned (Valid exampleData), Returned (Valid exampleData)]
   \<and> snd (run exampleLib (atTime 1700000000000) [0, 0, 1, 1]
          (exampleService,
           [Issued (Some exampleData) exampleSignature examplePublicKey,
            Issued (Some exampleData) exampleSignature examplePublicKey]))
     = [Returned (Valid exampleData),
        Returned (Invalid ''Nonce has already been used (replay attack detected)'')]"
proof -
  have checks:
      "firstFailure
         [validateInputs (Some exampleData) exampleSignature examplePublicKey,
          validateTimestamp exampleLib (atTime 1700000000000) exampleData,
          validateNonce exampleLib (atTime 1700000000000) exampleService
            (getProp exampleData ''nonce''),
          validateDomain exampleLib exampleService (getProp exampleData ''domain''),
          verifyCryptographicSignature exampleLib exampleData exampleSignature examplePublicKey,
          performSecurityChecks exampleLib exampleData] = None"
    by (simp add: example_checks)
  have mem: "redis exampleService = None"
    by (simp add: exampleService_def)
  then have w: "redis exampleService \<noteq> None \<longrightarrow> \<not> writeFails (atTime 1700000000000)"
    and r: "redis exampleService \<noteq> None \<longrightarrow> \<not> readFails (atTime 1700000000000)"
    by simp_all
  note both = overlapping_calls_both_valid [OF checks w]
  have overlap: "snd (run exampleLib (atTime 1700000000000) [0, 1, 0, 1]
          (exampleService,
           [Issued (Some exampleData) exampleSignature examplePublicKey,
            Issued (Some exampleData) exampleSignature examplePublicKey]))
     = [Returned (Valid exampleData), Returned (Valid exampleData)]"
    using both by (rule conjunct1)
  have sequential: "snd (run exampleLib (atTime 1700000000000) [0, 0, 1, 1]
          (exampleService,
           [Issued (Some exampleData) exampleSignature examplePublicKey,
            Issued (Some exampleData) exampleSignature examplePublicKey]))
     = [Returned (Valid exampleData), Returned (Invalid replayError)]"
    using both [THEN conjunct2, THEN conjunct1] r by (rule mp)
  show ?thesis
    using overlap sequential unfolding replayError_def by (rule conjI)
qed

end
